theory Spec2Isabelle
  imports Complex_Main
begin

section \<open>Errors and tensors\<close>

text \<open>
  The data layer of \<^verbatim>\<open>avoid_everything/data_loader.py\<close>. Every exception of the
  Python code is a value: \<open>FileNotFoundError\<close> for a file that cannot be opened,
  \<open>KeyError\<close> for a trajectory collection the archive does not hold,
  \<open>IndexError\<close> for an index past the end, \<open>Exception\<close> for the
  \<^verbatim>\<open>raise Exception(f"Invalid dataset type: ...")\<close> of \<open>load_from_directory\<close>, and
  \<open>RuntimeError\<close> for a shape mismatch inside torch. torch's float tensors are lists of
  reals (a 2-D tensor is the list of its rows); rounding is not modelled.
\<close>

datatype error =
    FileNotFoundError
  | KeyError string
  | IndexError
  | Exception string
  | RuntimeError

definition bind_err :: "error + 'a \<Rightarrow> ('a \<Rightarrow> error + 'b) \<Rightarrow> error + 'b" where
  "bind_err m k = (case m of Inl e \<Rightarrow> Inl e | Inr x \<Rightarrow> k x)"

type_synonym path = "string list"
type_synonym configuration = "real list"

text \<open>
  An elementwise binary torch operation on two 1-D tensors: equal sizes pair up, a
  size-1 tensor is broadcast, any other pair of sizes raises.
\<close>

definition broadcast2 :: "(real \<Rightarrow> real \<Rightarrow> real) \<Rightarrow> real list \<Rightarrow> real list \<Rightarrow> error + real list" where
  "broadcast2 f xs ys =
     (if length xs = length ys then Inr (map2 f xs ys)
      else if length xs = 1 then Inr (map (f (hd xs)) ys)
      else if length ys = 1 then Inr (map (\<lambda>x. f x (hd ys)) xs)
      else Inl RuntimeError)"

definition torch_maximum :: "real list \<Rightarrow> real list \<Rightarrow> error + real list" where
  "torch_maximum = broadcast2 max"

definition torch_minimum :: "real list \<Rightarrow> real list \<Rightarrow> error + real list" where
  "torch_minimum = broadcast2 min"

section \<open>Base.clamp_and_normalize\<close>

text \<open>
  \<^verbatim>\<open>RealFrankaConstants.JOINT_LIMITS\<close> belongs to the robofin library; it is the
  parameter \<open>limits\<close>, one (lower, upper) pair per joint. The clamping step is
  \<^verbatim>\<open>torch.minimum(torch.maximum(configuration_tensor, limits[:, 0]), limits[:, 1])\<close>.
\<close>

definition clamp :: "(real \<times> real) list \<Rightarrow> real list \<Rightarrow> error + real list" where
  "clamp limits configuration_tensor =
     bind_err (torch_maximum configuration_tensor (map fst limits))
       (\<lambda>t. torch_minimum t (map snd limits))"

text \<open>
  Modelled from the spec: \<^verbatim>\<open>avoid_everything.normalization.normalize_franka_joints\<close> is
  not among the sources. The spec describes it as the affine map that sends each joint
  from its physical limit pair onto \<open>[-1, 1]\<close>, joint by joint.
\<close>

definition normalize_franka_joints :: "(real \<times> real) list \<Rightarrow> real list \<Rightarrow> real list" where
  "normalize_franka_joints limits xs =
     map2 (\<lambda>v (lo, hi). 2 * (v - lo) / (hi - lo) - 1) xs limits"

definition clamp_and_normalize :: "(real \<times> real) list \<Rightarrow> real list \<Rightarrow> error + real list" where
  "clamp_and_normalize limits configuration_tensor =
     bind_err (clamp limits configuration_tensor)
       (\<lambda>c. Inr (normalize_franka_joints limits c))"

text \<open>
  The supervision tensor is 2-D (one row per lookahead step); torch broadcasts the limits
  over the leading dimension, so each row is clamped and normalised on its own and the
  first row of a wrong size raises.
\<close>

fun clamp_and_normalize_rows :: "(real \<times> real) list \<Rightarrow> real list list \<Rightarrow> error + real list list" where
  "clamp_and_normalize_rows limits [] = Inr []"
| "clamp_and_normalize_rows limits (r # rs) =
     bind_err (clamp_and_normalize limits r)
       (\<lambda>r'. bind_err (clamp_and_normalize_rows limits rs) (\<lambda>rs'. Inr (r' # rs')))"

section \<open>The trajectory archive\<close>

text \<open>
  Modelled from the spec: \<^verbatim>\<open>avoid_everything.dataset.Dataset\<close> (imported as
  \<open>MPNDataset\<close>) and the problem and obstacle types are not among the sources. The model
  follows sections 3, 4.1 and 7 of the spec: a problem is a target, a set of cuboid and
  cylinder obstacles and a start configuration; an archive holds the problems, their
  flattened obstacle arrays, named collections of expert trajectories (one trajectory per
  problem) and a content hash. Indices are natural numbers, as the batch iterator passes
  them.
\<close>

datatype obstacle =
    Cuboid "real list" "real list" "real list"
  | Cylinder real real "real list" "real list"

record problem =
  target :: configuration
  obstacles :: "obstacle list"
  q0 :: configuration

record flattened_obstacles =
  cuboid_dims :: "real list list"
  cuboid_centers :: "real list list"
  cuboid_quaternions :: "real list list"
  cylinder_radii :: "real list list"
  cylinder_heights :: "real list list"
  cylinder_centers :: "real list list"
  cylinder_quaternions :: "real list list"

record solution =
  expert :: "configuration list"
  padded_expert :: "configuration list"

record archive =
  problems :: "problem list"
  flobs :: "flattened_obstacles list"
  collections :: "string \<rightharpoonup> solution list"
  md5_checksum :: string

text \<open>
  The source opens an archive in two ways: \<^verbatim>\<open>MPNDataset(path)\<close>, in the default mode
  (\<open>Base.__init__\<close>, \<open>Base.md5_checksum\<close>, \<open>DataModule.md5_checksums\<close>), and
  \<^verbatim>\<open>MPNDataset(path, "r")\<close>, read-only (both \<open>__getitem__\<close> methods).
\<close>

datatype mode = DefaultMode | ReadOnly

text \<open>
  The file system: the archives on disk by path, and \<open>open_absent\<close>, what opening a path
  that is not on disk in the default mode gives. Neither the sources nor the spec say what
  that is, so it is a parameter.
\<close>

record filesystem =
  files :: "path \<rightharpoonup> archive"
  open_absent :: "error + archive"

definition exists_path :: "filesystem \<Rightarrow> path \<Rightarrow> bool" where
  "exists_path fs p = (files fs p \<noteq> None)"

text \<open>
  Modelled from the spec: the dataset of a missing split file. Sections 4.4 and 7 make it
  an empty dataset, of length 0, on which every index access fails with an out-of-range
  error: it has no problem, and each of its collections has no state. No checksum is read
  from it.
\<close>

definition empty_archive :: archive where
  "empty_archive =
     \<lparr> problems = [], flobs = [], collections = (\<lambda>key. Some []), md5_checksum = [] \<rparr>"

text \<open>
  Modelled from the spec: opening an archive. A path that exists holds a readable archive.
  A read-only open of a path that is not on disk gives the empty dataset of sections 4.4
  and 7; an open in the default mode of such a path gives \<open>open_absent\<close>.
\<close>

definition MPNDataset :: "filesystem \<Rightarrow> path \<Rightarrow> mode \<Rightarrow> error + archive" where
  "MPNDataset fs p m =
     (case files fs p of
        Some f \<Rightarrow> Inr f
      | None \<Rightarrow> (case m of ReadOnly \<Rightarrow> Inr empty_archive | DefaultMode \<Rightarrow> open_absent fs))"

text \<open>Modelled from the spec: \<^verbatim>\<open>f[trajectory_key]\<close>, the named trajectory collection.\<close>

definition collection :: "archive \<Rightarrow> string \<Rightarrow> error + solution list" where
  "collection f key = (case collections f key of None \<Rightarrow> Inl (KeyError key) | Some g \<Rightarrow> Inr g)"

text \<open>
  Modelled from the spec: \<^verbatim>\<open>len(f[trajectory_key])\<close> is the number of states of the
  collection (\<open>count_states\<close>), \<^verbatim>\<open>len(f)\<close> the number of problems
  (\<open>count_trajectories\<close>).
\<close>

definition count_states :: "solution list \<Rightarrow> nat" where
  "count_states g = sum_list (map (\<lambda>s. length (expert s)) g)"

definition count_trajectories :: "archive \<Rightarrow> nat" where
  "count_trajectories f = length (problems f)"

text \<open>
  Modelled from the spec: \<open>lookup_pidx\<close> (\<open>lookup_trajectory_index\<close>) inverts the
  cumulative trajectory lengths and fails with \<open>IndexError\<close> out of range.
\<close>

fun lookup_pidx :: "solution list \<Rightarrow> nat \<Rightarrow> error + nat" where
  "lookup_pidx [] i = Inl IndexError"
| "lookup_pidx (s # g) i =
     (if i < length (expert s) then Inr 0
      else bind_err (lookup_pidx g (i - length (expert s))) (\<lambda>p. Inr (Suc p)))"

text \<open>
  Modelled from the spec: \<open>problem(pidx)\<close>, \<open>flattened_obstacles(pidx)\<close> and
  \<open>padded_expert(pidx)\<close>; an index past the end is an out-of-range error.
\<close>

definition get_problem :: "archive \<Rightarrow> nat \<Rightarrow> error + problem" where
  "get_problem f p = (if p < length (problems f) then Inr (problems f ! p) else Inl IndexError)"

definition get_flattened_obstacles :: "archive \<Rightarrow> nat \<Rightarrow> error + flattened_obstacles" where
  "get_flattened_obstacles f p = (if p < length (flobs f) then Inr (flobs f ! p) else Inl IndexError)"

definition get_padded_expert :: "solution list \<Rightarrow> nat \<Rightarrow> error + configuration list" where
  "get_padded_expert g p = (if p < length g then Inr (padded_expert (g ! p)) else Inl IndexError)"

text \<open>
  Modelled from the spec: \<open>state_range\<close> (\<open>get_state_window\<close>). The window starts at the
  state of the global index, its first element the current configuration, and is
  truncated, not wrapped, at the end of that state's trajectory. \<open>StateDataset\<close> asks
  for \<open>action_chunk_length + 1\<close> and the spec has it fetch that many configurations, so
  \<open>lookahead\<close> is the number of configurations of a window that is not cut short.
\<close>

fun state_range :: "solution list \<Rightarrow> nat \<Rightarrow> nat \<Rightarrow> error + configuration list" where
  "state_range [] i lookahead = Inl IndexError"
| "state_range (s # g) i lookahead =
     (if i < length (expert s) then Inr (take lookahead (drop i (expert s)))
      else state_range g (i - length (expert s)) lookahead)"

section \<open>Robot geometry and samplers\<close>

text \<open>
  The robofin library (forward kinematics, the cached robot point sampler, the joint
  limits) and \<^verbatim>\<open>avoid_everything.geometry.construct_mixed_point_cloud\<close> are not among
  the sources; they are the fields of \<open>env\<close>. \<open>right_gripper_pose target prismatic\<close> is
  \<^verbatim>\<open>franka_arm_link_fk(target, prismatic, np.eye(4))[ARM_LINKS.right_gripper]\<close>, a
  4 by 4 matrix; \<open>sample n\<close> and \<open>sample_end_effector n\<close> are the two methods of the
  \<open>NumpyFrankaSampler\<close> built with \<open>n\<close> robot points, respectively \<open>n\<close> end-effector
  points. Each returns its points as rows.

  The samplers draw their points (section 4.3 of the spec) from the process-wide numpy and
  python generators, which \<^verbatim>\<open>run_training.py\<close> seeds. What a sampler draws in one call
  is its first argument; one access of a dataset makes the three draws of \<open>draws\<close>.
\<close>

type_synonym draw = nat

record draws =
  scene_draw :: draw
  target_draw :: draw
  robot_draw :: draw

record env =
  JOINT_LIMITS :: "(real \<times> real) list"
  right_gripper_pose :: "configuration \<Rightarrow> real \<Rightarrow> real list list"
  sample_end_effector :: "draw \<Rightarrow> nat \<Rightarrow> real list list \<Rightarrow> real \<Rightarrow> real list list"
  sample :: "draw \<Rightarrow> nat \<Rightarrow> configuration \<Rightarrow> real \<Rightarrow> real list list"
  construct_mixed_point_cloud :: "draw \<Rightarrow> obstacle list \<Rightarrow> nat \<Rightarrow> real list list"

text \<open>
  \<^verbatim>\<open>torch.randn(shape)\<close> draws from the process-wide generator. The draw is the
  argument \<open>noise\<close>: position \<open>k\<close> of the drawn tensor is \<open>noise k\<close>.
\<close>

definition randn :: "(nat \<Rightarrow> real) \<Rightarrow> nat \<Rightarrow> real list" where
  "randn noise n = map noise [0..<n]"

section \<open>Base\<close>

datatype DatasetType = TRAIN | VAL_STATE | VAL | MINI_TRAIN | VAL_PRETRAIN | TEST

text \<open>
  \<open>DatasetType\<close> is declared in \<^verbatim>\<open>avoid_everything.type_defs\<close>, which is not among
  the sources; its members are the six the data loader names. \<open>dataset_type\<close> is compared
  with members of the enumeration and with strings, so the argument is either. The f-string
  of the error message prints a string as it is and a member by its qualified name.
\<close>

datatype dataset_type = Member DatasetType | Name string

fun format_dataset_type :: "dataset_type \<Rightarrow> string" where
  "format_dataset_type (Name s) = s"
| "format_dataset_type (Member TRAIN) = ''DatasetType.TRAIN''"
| "format_dataset_type (Member VAL_STATE) = ''DatasetType.VAL_STATE''"
| "format_dataset_type (Member VAL) = ''DatasetType.VAL''"
| "format_dataset_type (Member MINI_TRAIN) = ''DatasetType.MINI_TRAIN''"
| "format_dataset_type (Member VAL_PRETRAIN) = ''DatasetType.VAL_PRETRAIN''"
| "format_dataset_type (Member TEST) = ''DatasetType.TEST''"

record Base =
  database :: path
  trajectory_key :: string
  train :: bool
  state_count :: nat
  problem_count :: nat
  num_obstacle_points :: nat
  num_robot_points :: nat
  num_target_points :: nat
  prismatic_joint :: real
  random_scale :: real

record StateDataset = Base +
  action_chunk_length :: nat

text \<open>
  \<open>Base.__init__\<close>. The counts are read from the archive only when the file exists.
  Building the robofin sampler and collision spheres reads no data and is not modelled.
\<close>

definition Base_init ::
  "filesystem \<Rightarrow> path \<Rightarrow> dataset_type \<Rightarrow> string \<Rightarrow> nat \<Rightarrow> nat \<Rightarrow> nat \<Rightarrow> real \<Rightarrow> real \<Rightarrow> error + Base" where
  "Base_init fs data_path dtype key n_robot n_obstacle n_target prismatic scale =
     bind_err
       (if \<not> exists_path fs data_path then Inr (0, 0)
        else bind_err (MPNDataset fs data_path DefaultMode) (\<lambda>f.
             bind_err (collection f key) (\<lambda>g.
             Inr (count_states g, count_trajectories f))))
       (\<lambda>(n_states, n_problems). Inr
         \<lparr> database = data_path,
           trajectory_key = key,
           train = (dtype = Member TRAIN),
           state_count = n_states,
           problem_count = n_problems,
           num_obstacle_points = n_obstacle,
           num_robot_points = n_robot,
           num_target_points = n_target,
           prismatic_joint = prismatic,
           random_scale = scale \<rparr>)"

definition file_exists :: "filesystem \<Rightarrow> 'a Base_scheme \<Rightarrow> bool" where
  "file_exists fs self = exists_path fs (database self)"

text \<open>The property \<open>Base.md5_checksum\<close>: it opens the archive without a test.\<close>

definition Base_md5_checksum :: "filesystem \<Rightarrow> 'a Base_scheme \<Rightarrow> error + string" where
  "Base_md5_checksum fs self =
     bind_err (MPNDataset fs (database self) DefaultMode) (\<lambda>f. Inr (md5_checksum f))"

text \<open>
  \<open>Base.load_from_directory\<close>; \<open>cls\<close> is the constructor of the class it is called on,
  with the remaining arguments already given.
\<close>

definition load_from_directory ::
  "(path \<Rightarrow> dataset_type \<Rightarrow> error + 'd) \<Rightarrow> path \<Rightarrow> dataset_type \<Rightarrow> error + 'd" where
  "load_from_directory cls directory dtype =
     (if dtype = Member TRAIN \<or> dtype = Name ''train'' then
        cls (directory @ [''train'', ''train.hdf5'']) dtype
      else if dtype = Member VAL_STATE \<or> dtype = Name ''val'' then
        cls (directory @ [''val'', ''val.hdf5'']) dtype
      else if dtype = Member VAL \<or> dtype = Name ''val'' then
        cls (directory @ [''val'', ''val.hdf5'']) dtype
      else if dtype = Member MINI_TRAIN \<or> dtype = Name ''mini_train'' then
        cls (directory @ [''val'', ''mini_train.hdf5'']) dtype
      else if dtype = Member VAL_PRETRAIN \<or> dtype = Name ''val_pretrain'' then
        cls (directory @ [''val'', ''val_pretrain.hdf5'']) dtype
      else if dtype = Member TEST \<or> dtype = Name ''test'' then
        cls (directory @ [''test'', ''test.hdf5'']) dtype
      else Inl (Exception (''Invalid dataset type: '' @ format_dataset_type dtype)))"

section \<open>Base.get_inputs\<close>

text \<open>
  The dictionary of tensors of one example. The keys \<open>get_inputs\<close> always sets are plain
  fields; the keys a dataset adds afterwards are optional.
\<close>

record item =
  target_position :: "real list"
  target_orientation :: "real list list"
  cuboid_dims :: "real list list"
  cuboid_centers :: "real list list"
  cuboid_quats :: "real list list"
  cylinder_radii :: "real list list"
  cylinder_heights :: "real list list"
  cylinder_centers :: "real list list"
  cylinder_quats :: "real list list"
  point_cloud :: "real list list"
  point_cloud_labels :: "real list list"
  configuration :: "real list option"
  supervision :: "real list list option"
  idx :: "nat option"
  expert :: "real list list option"
  pidx :: "nat option"

definition get_inputs ::
  "env \<Rightarrow> draws \<Rightarrow> 'a Base_scheme \<Rightarrow> problem \<Rightarrow> flattened_obstacles \<Rightarrow> item" where
  "get_inputs e w self prob fl =
     (let target_pose = right_gripper_pose e (target prob) (prismatic_joint self);
          target_points = map (take 3)
            (sample_end_effector e (target_draw w) (num_target_points self) target_pose
               (prismatic_joint self));
          scene_points = map (take 3)
            (construct_mixed_point_cloud e (scene_draw w) (obstacles prob) (num_obstacle_points self))
      in \<lparr> target_position = map (\<lambda>row. row ! 3) (take 3 target_pose),
           target_orientation = map (take 3) (take 3 target_pose),
           cuboid_dims = flattened_obstacles.cuboid_dims fl,
           cuboid_centers = flattened_obstacles.cuboid_centers fl,
           cuboid_quats = flattened_obstacles.cuboid_quaternions fl,
           cylinder_radii = flattened_obstacles.cylinder_radii fl,
           cylinder_heights = flattened_obstacles.cylinder_heights fl,
           cylinder_centers = flattened_obstacles.cylinder_centers fl,
           cylinder_quats = flattened_obstacles.cylinder_quaternions fl,
           point_cloud = scene_points @ target_points,
           point_cloud_labels =
             replicate (length scene_points) [1] @
             map (map ((*) 2)) (replicate (length target_points) [1]),
           configuration = None,
           supervision = None,
           idx = None,
           expert = None,
           pidx = None \<rparr>)"

text \<open>
  The branch on \<open>self.train\<close> shared by both \<open>__getitem__\<close> methods: the normalised
  configuration and the robot points, both computed from the same tensor.
\<close>

definition configuration_and_robot_points ::
  "env \<Rightarrow> (nat \<Rightarrow> real) \<Rightarrow> draws \<Rightarrow> 'a Base_scheme \<Rightarrow> real list
     \<Rightarrow> error + (real list \<times> real list list)" where
  "configuration_and_robot_points e noise w self config_tensor =
     (if train self then
        (let randomized =
               map2 (\<lambda>z c. random_scale self * z + c)
                 (randn noise (length config_tensor)) config_tensor
         in bind_err (clamp_and_normalize (JOINT_LIMITS e) randomized) (\<lambda>c.
            Inr (c, map (take 3)
                 (sample e (robot_draw w) (num_robot_points self) randomized (prismatic_joint self)))))
      else
        bind_err (clamp_and_normalize (JOINT_LIMITS e) config_tensor) (\<lambda>c.
        Inr (c, map (take 3)
               (sample e (robot_draw w) (num_robot_points self) config_tensor (prismatic_joint self)))))"

definition prepend_robot_points :: "real list list \<Rightarrow> item \<Rightarrow> item" where
  "prepend_robot_points robot_points it =
     it \<lparr> point_cloud := robot_points @ point_cloud it,
          point_cloud_labels := replicate (length robot_points) [0] @ point_cloud_labels it \<rparr>"

section \<open>TrajectoryDataset\<close>

definition TrajectoryDataset_init ::
  "filesystem \<Rightarrow> path \<Rightarrow> dataset_type \<Rightarrow> string \<Rightarrow> nat \<Rightarrow> nat \<Rightarrow> nat \<Rightarrow> real \<Rightarrow> real \<Rightarrow> error + Base" where
  "TrajectoryDataset_init = Base_init"

definition TrajectoryDataset_load_from_directory ::
  "filesystem \<Rightarrow> path \<Rightarrow> string \<Rightarrow> nat \<Rightarrow> nat \<Rightarrow> nat \<Rightarrow> dataset_type \<Rightarrow> real \<Rightarrow> real \<Rightarrow> error + Base" where
  "TrajectoryDataset_load_from_directory fs directory key n_robot n_obstacle n_target dtype prismatic scale =
     load_from_directory
       (\<lambda>data_path dt. TrajectoryDataset_init fs data_path dt key n_robot n_obstacle n_target prismatic scale)
       directory dtype"


definition TrajectoryDataset_getitem ::
  "env \<Rightarrow> filesystem \<Rightarrow> (nat \<Rightarrow> real) \<Rightarrow> draws \<Rightarrow> Base \<Rightarrow> nat \<Rightarrow> error + item" where
  "TrajectoryDataset_getitem e fs noise w self p =
     bind_err (MPNDataset fs (database self) ReadOnly) (\<lambda>f.
     bind_err (collection f (trajectory_key self)) (\<lambda>g.
     bind_err (get_problem f p) (\<lambda>prob.
     bind_err (get_flattened_obstacles f p) (\<lambda>fl.
     let it = get_inputs e w self prob fl in
     bind_err (get_problem f p) (\<lambda>prob2.
     bind_err (configuration_and_robot_points e noise w self (q0 prob2)) (\<lambda>(c, robot_points).
     bind_err (get_padded_expert g p) (\<lambda>ex.
     Inr ((prepend_robot_points robot_points (it \<lparr> configuration := Some c \<rparr>))
            \<lparr> expert := Some ex, pidx := Some p \<rparr>))))))))"

section \<open>StateDataset\<close>

definition StateDataset_init ::
  "filesystem \<Rightarrow> path \<Rightarrow> dataset_type \<Rightarrow> string \<Rightarrow> nat \<Rightarrow> nat \<Rightarrow> nat \<Rightarrow> real \<Rightarrow> real \<Rightarrow> nat
     \<Rightarrow> error + StateDataset" where
  "StateDataset_init fs data_path dtype key n_robot n_obstacle n_target prismatic scale chunk =
     bind_err (Base_init fs data_path dtype key n_robot n_obstacle n_target prismatic scale)
       (\<lambda>b. Inr (Base.extend b (StateDataset.fields chunk)))"

definition StateDataset_load_from_directory ::
  "filesystem \<Rightarrow> path \<Rightarrow> string \<Rightarrow> nat \<Rightarrow> nat \<Rightarrow> nat \<Rightarrow> dataset_type \<Rightarrow> real \<Rightarrow> real \<Rightarrow> nat
     \<Rightarrow> error + StateDataset" where
  "StateDataset_load_from_directory fs directory key n_robot n_obstacle n_target dtype prismatic scale chunk =
     load_from_directory
       (\<lambda>data_path dt. StateDataset_init fs data_path dt key n_robot n_obstacle n_target prismatic scale chunk)
       directory dtype"

definition StateDataset_len :: "StateDataset \<Rightarrow> nat" where
  "StateDataset_len self = state_count self"

text \<open>
  \<open>StateDataset.__getitem__\<close>. \<^verbatim>\<open>configs[0]\<close> on an empty window raises; the rest of the
  window is the supervision.
\<close>

definition StateDataset_getitem ::
  "env \<Rightarrow> filesystem \<Rightarrow> (nat \<Rightarrow> real) \<Rightarrow> draws \<Rightarrow> StateDataset \<Rightarrow> nat \<Rightarrow> error + item" where
  "StateDataset_getitem e fs noise w self i =
     bind_err (MPNDataset fs (database self) ReadOnly) (\<lambda>f.
     bind_err (collection f (trajectory_key self)) (\<lambda>g.
     bind_err (lookup_pidx g i) (\<lambda>p.
     bind_err (get_problem f p) (\<lambda>prob.
     bind_err (get_flattened_obstacles f p) (\<lambda>fl.
     let it = get_inputs e w self prob fl in
     bind_err (state_range g i (action_chunk_length self + 1)) (\<lambda>configs.
     case configs of
       [] \<Rightarrow> Inl IndexError
     | config # rest \<Rightarrow>
         bind_err (configuration_and_robot_points e noise w self config) (\<lambda>(c, robot_points).
         bind_err (clamp_and_normalize_rows (JOINT_LIMITS e) rest) (\<lambda>sup.
         Inr ((prepend_robot_points robot_points (it \<lparr> configuration := Some c \<rparr>))
                \<lparr> idx := Some i, supervision := Some sup \<rparr>)))))))))"

section \<open>DataModule\<close>

record DataModule =
  data_dir :: path
  train_trajectory_key :: string
  val_trajectory_key :: string
  dm_num_robot_points :: nat
  dm_num_obstacle_points :: nat
  dm_num_target_points :: nat
  dm_prismatic_joint :: real
  dm_action_chunk_length :: nat
  dm_random_scale :: real

text \<open>
  The two state datasets \<open>DataModule.setup\<close> builds with the configured
  \<open>random_scale\<close>: \<open>data_train\<close> (stage fit) and \<open>data_test\<close> (stage test).
\<close>

definition setup_data_train :: "filesystem \<Rightarrow> DataModule \<Rightarrow> error + StateDataset" where
  "setup_data_train fs self =
     StateDataset_load_from_directory fs (data_dir self) (train_trajectory_key self)
       (dm_num_robot_points self) (dm_num_obstacle_points self) (dm_num_target_points self)
       (Member TRAIN) (dm_prismatic_joint self) (dm_random_scale self) (dm_action_chunk_length self)"

definition setup_data_test :: "filesystem \<Rightarrow> DataModule \<Rightarrow> error + StateDataset" where
  "setup_data_test fs self =
     StateDataset_load_from_directory fs (data_dir self) (train_trajectory_key self)
       (dm_num_robot_points self) (dm_num_obstacle_points self) (dm_num_target_points self)
       (Member TEST) (dm_prismatic_joint self) (dm_random_scale self) (dm_action_chunk_length self)"

text \<open>
  \<open>DataModule.md5_checksums\<close>: the loop over the three hard-coded paths, the dictionary
  as a map from split name to content hash.
\<close>

fun md5_loop :: "filesystem \<Rightarrow> (string \<times> path) list \<Rightarrow> (string \<rightharpoonup> string) \<Rightarrow> error + (string \<rightharpoonup> string)" where
  "md5_loop fs [] checksums = Inr checksums"
| "md5_loop fs ((key, p) # paths) checksums =
     (if exists_path fs p then
        bind_err (MPNDataset fs p DefaultMode)
          (\<lambda>f. md5_loop fs paths (checksums(key \<mapsto> md5_checksum f)))
      else md5_loop fs paths checksums)"

definition md5_checksums :: "filesystem \<Rightarrow> DataModule \<Rightarrow> error + (string \<rightharpoonup> string)" where
  "md5_checksums fs self =
     md5_loop fs
       [(''train'', data_dir self @ [''train'', ''train.hdf5'']),
        (''val'', data_dir self @ [''val'', ''val.hdf5'']),
        (''mini_train'', data_dir self @ [''val'', ''mini_train.hdf5''])]
       Map.empty"

section \<open>A small archive\<close>

text \<open>
  Concrete data on which the functions above are evaluated: seven joints, an archive of
  two problems whose expert trajectories have three and two states, stored under
  \<^verbatim>\<open>data/train/train.hdf5\<close>, and samplers that return the requested number of
  four-column rows, with their draw in one column.
\<close>

definition example_limits :: "(real \<times> real) list" where
  "example_limits = [(-2, 2), (-1, 1), (-2, 2), (-3, 0), (-2, 2), (0, 4), (-2, 2)]"

definition example_env :: env where
  "example_env =
     \<lparr> JOINT_LIMITS = example_limits,
       right_gripper_pose = (\<lambda>t pj. [[1, 0, 0, pj], [0, 1, 0, 0], [0, 0, 1, 0], [0, 0, 0, 1]]),
       sample_end_effector = (\<lambda>d n pose pj. replicate n [pj, real d, 7, 1]),
       sample = (\<lambda>d n cfg pj. replicate n [sum_list cfg, pj, real d, 1]),
       construct_mixed_point_cloud = (\<lambda>d obs n. replicate n [real (length obs), real d, 5, 1]) \<rparr>"

definition example_draws :: draws where
  "example_draws = \<lparr> scene_draw = 0, target_draw = 0, robot_draw = 0 \<rparr>"

definition example_problem :: problem where
  "example_problem =
     \<lparr> target = [0, 0, 0, -1, 0, 1, 0],
       obstacles = [Cylinder 1 2 [0, 0, 0] [1, 0, 0, 0]],
       q0 = [1, 0, 0, -1, 0, 1, 0] \<rparr>"

definition example_flobs :: flattened_obstacles where
  "example_flobs =
     \<lparr> flattened_obstacles.cuboid_dims = [[0, 0, 0]],
       flattened_obstacles.cuboid_centers = [[0, 0, 0]],
       flattened_obstacles.cuboid_quaternions = [[1, 0, 0, 0]],
       flattened_obstacles.cylinder_radii = [[1]],
       flattened_obstacles.cylinder_heights = [[2]],
       flattened_obstacles.cylinder_centers = [[0, 0, 0]],
       flattened_obstacles.cylinder_quaternions = [[1, 0, 0, 0]] \<rparr>"

definition example_archive :: archive where
  "example_archive =
     \<lparr> problems = [example_problem, example_problem],
       flobs = [example_flobs, example_flobs],
       collections =
         [''global_solutions'' \<mapsto>
            [\<lparr> solution.expert = [[1, 0, 0, -1, 0, 1, 0], [2, 0, 0, -1, 0, 1, 0], [3, 0, 0, -1, 0, 1, 0]],
               padded_expert = [[1, 0, 0, -1, 0, 1, 0], [2, 0, 0, -1, 0, 1, 0], [3, 0, 0, -1, 0, 1, 0]] \<rparr>,
             \<lparr> solution.expert = [[0, 1, 0, -1, 0, 1, 0], [0, 0, 0, -1, 0, 1, 0]],
               padded_expert = [[0, 1, 0, -1, 0, 1, 0], [0, 0, 0, -1, 0, 1, 0], [0, 0, 0, -1, 0, 1, 0]] \<rparr>]],
       md5_checksum = ''0f343b0931126a20f133d67c2b018a3b'' \<rparr>"

definition example_fs :: filesystem where
  "example_fs =
     \<lparr> files = [[''data'', ''train'', ''train.hdf5''] \<mapsto> example_archive],
       open_absent = Inl FileNotFoundError \<rparr>"

definition example_fs_test :: filesystem where
  "example_fs_test =
     \<lparr> files = [[''data'', ''test'', ''test.hdf5''] \<mapsto> example_archive],
       open_absent = Inl FileNotFoundError \<rparr>"

definition example_fs_empty :: filesystem where
  "example_fs_empty = \<lparr> files = Map.empty, open_absent = Inl FileNotFoundError \<rparr>"

definition example_state_dataset :: "bool \<Rightarrow> real \<Rightarrow> StateDataset" where
  "example_state_dataset tr scale =
     \<lparr> database = [''data'', ''train'', ''train.hdf5''],
       trajectory_key = ''global_solutions'',
       train = tr,
       state_count = 5,
       problem_count = 2,
       num_obstacle_points = 3,
       num_robot_points = 2,
       num_target_points = 1,
       prismatic_joint = 0,
       random_scale = scale,
       action_chunk_length = 2 \<rparr>"

definition example_trajectory_dataset :: "bool \<Rightarrow> real \<Rightarrow> Base" where
  "example_trajectory_dataset tr scale =
     \<lparr> database = [''data'', ''train'', ''train.hdf5''],
       trajectory_key = ''global_solutions'',
       train = tr,
       state_count = 5,
       problem_count = 2,
       num_obstacle_points = 3,
       num_robot_points = 2,
       num_target_points = 1,
       prismatic_joint = 0,
       random_scale = scale \<rparr>"

definition example_data_module :: DataModule where
  "example_data_module =
     \<lparr> data_dir = [''data''],
       train_trajectory_key = ''global_solutions'',
       val_trajectory_key = ''global_solutions'',
       dm_num_robot_points = 2,
       dm_num_obstacle_points = 3,
       dm_num_target_points = 1,
       dm_prismatic_joint = 0,
       dm_action_chunk_length = 2,
       dm_random_scale = 1 \<rparr>"

section \<open>Properties of the configuration codec\<close>

lemma clamp_same_length:
  "length x = length limits \<Longrightarrow>
   clamp limits x = Inr (map2 (\<lambda>v (lo, hi). min (max v lo) hi) x limits)"
proof -
  assume len: "length x = length limits"
  have "map2 min (map2 max x (map fst limits)) (map snd limits)
        = map2 (\<lambda>v (lo, hi). min (max v lo) hi) x limits"
    using len by (induction x limits rule: list_induct2) auto
  then show ?thesis
    using len by (simp add: clamp_def bind_err_def torch_maximum_def torch_minimum_def broadcast2_def)
qed

lemma clamp_idem_point:
  fixes v lo hi :: real
  shows "min (max (min (max v lo) hi) lo) hi = min (max v lo) hi"
  by (cases "lo \<le> hi") (simp_all add: min_def max_def)

lemma clamp_idem_list:
  fixes x :: "real list"
  shows "length x = length limits \<Longrightarrow>
   map2 (\<lambda>v (lo, hi). min (max v lo) hi) (map2 (\<lambda>v (lo, hi). min (max v lo) hi) x limits) limits
   = map2 (\<lambda>v (lo, hi). min (max v lo) hi) x limits"
  by (induction x limits rule: list_induct2) (simp_all add: clamp_idem_point split: prod.split)

lemma normalize_in_unit:
  fixes v lo hi :: real
  assumes "lo < hi"
  shows "-1 \<le> 2 * (min (max v lo) hi - lo) / (hi - lo) - 1"
    and "2 * (min (max v lo) hi - lo) / (hi - lo) - 1 \<le> 1"
proof -
  let ?c = "min (max v lo) hi"
  have d: "0 < hi - lo" using assms by simp
  have lo_c: "lo \<le> ?c" and c_hi: "?c \<le> hi" using assms by auto
  have "0 \<le> 2 * (?c - lo)" using lo_c by simp
  then have "0 \<le> 2 * (?c - lo) / (hi - lo)" using d by (rule divide_nonneg_pos)
  then show "-1 \<le> 2 * (?c - lo) / (hi - lo) - 1" by simp
  have "2 * (?c - lo) \<le> 2 * (hi - lo)" using c_hi by simp
  then have "2 * (?c - lo) / (hi - lo) \<le> 2" using d by (simp only: pos_divide_le_eq)
  then show "2 * (?c - lo) / (hi - lo) - 1 \<le> 1" by simp
qed

lemma normalize_clamped_range:
  "length x = length limits \<Longrightarrow> \<forall>(lo, hi) \<in> set limits. lo < hi \<Longrightarrow>
   \<forall>y \<in> set (normalize_franka_joints limits (map2 (\<lambda>v (lo, hi). min (max v lo) hi) x limits)).
     -1 \<le> y \<and> y \<le> 1"
proof (induction x limits rule: list_induct2)
  case Nil
  then show ?case by (simp add: normalize_franka_joints_def)
next
  case (Cons v vs l ls)
  obtain lo hi where l: "l = (lo, hi)" by (cases l)
  from Cons.prems l have lt: "lo < hi" by simp
  from Cons have IH: "\<forall>y \<in> set (normalize_franka_joints ls (map2 (\<lambda>v (lo, hi). min (max v lo) hi) vs ls)).
     -1 \<le> y \<and> y \<le> 1" by simp
  show ?case
    using IH normalize_in_unit[OF lt, of v]
    by (simp add: normalize_franka_joints_def l)
qed

text \<open>
  C5. For every 7-value configuration \<open>x\<close>, whatever its values, and joint limits with
  lower below upper, \<open>clamp_and_normalize\<close> returns 7 values that all lie in \<open>[-1, 1]\<close>;
  and clamping is idempotent: clamping the clamped configuration gives it back.
\<close>

theorem clamp_and_normalize_in_unit_interval:
  assumes "length limits = 7" and "length x = 7" and "\<forall>(lo, hi) \<in> set limits. lo < hi"
  shows "(\<exists>y. clamp_and_normalize limits x = Inr y \<and> length y = 7 \<and> (\<forall>v \<in> set y. -1 \<le> v \<and> v \<le> 1))
       \<and> (\<exists>c. clamp limits x = Inr c \<and> clamp limits c = Inr c)"
proof -
  let ?c = "map2 (\<lambda>v (lo, hi). min (max v lo) hi) x limits"
  have len: "length x = length limits" using assms by simp
  have c: "clamp limits x = Inr ?c" using len by (rule clamp_same_length)
  have lc: "length ?c = length limits" using len by simp
  have cc: "clamp limits ?c = Inr ?c"
    using clamp_same_length[OF lc] clamp_idem_list[OF len] by simp
  have n: "clamp_and_normalize limits x = Inr (normalize_franka_joints limits ?c)"
    by (simp add: clamp_and_normalize_def c bind_err_def)
  have l7: "length (normalize_franka_joints limits ?c) = 7"
    using assms by (simp add: normalize_franka_joints_def)
  have r: "\<forall>v \<in> set (normalize_franka_joints limits ?c). -1 \<le> v \<and> v \<le> 1"
    using normalize_clamped_range[OF len assms(3)] .
  show ?thesis using c cc n l7 r by blast
qed

theorem clamp_and_normalize_in_unit_interval_witness:
  "(\<exists>y. clamp_and_normalize example_limits [5, -5, 0, 1, -1, 22 / 5, 2] = Inr y \<and> length y = 7
        \<and> (\<forall>v \<in> set y. -1 \<le> v \<and> v \<le> 1))
   \<and> (\<exists>c. clamp example_limits [5, -5, 0, 1, -1, 22 / 5, 2] = Inr c \<and> clamp example_limits c = Inr c)"
  using clamp_and_normalize_in_unit_interval [of example_limits "[5, -5, 0, 1, -1, 22 / 5, 2]"]
  by (simp add: example_limits_def)

section \<open>Assembling an example\<close>

lemma bind_err_Inr:
  "bind_err m k = Inr y \<longleftrightarrow> (\<exists>x. m = Inr x \<and> k x = Inr y)"
  by (cases m) (simp_all add: bind_err_def)

lemma StateDataset_getitem_Inr:
  assumes "StateDataset_getitem e fs noise w self i = Inr it"
  shows "\<exists>f g p prob fl config rest c rp sup.
           MPNDataset fs (database self) ReadOnly = Inr f
         \<and> collection f (trajectory_key self) = Inr g
         \<and> lookup_pidx g i = Inr p
         \<and> get_problem f p = Inr prob
         \<and> get_flattened_obstacles f p = Inr fl
         \<and> state_range g i (action_chunk_length self + 1) = Inr (config # rest)
         \<and> configuration_and_robot_points e noise w self config = Inr (c, rp)
         \<and> clamp_and_normalize_rows (JOINT_LIMITS e) rest = Inr sup
         \<and> it = (prepend_robot_points rp ((get_inputs e w self prob fl) \<lparr> configuration := Some c \<rparr>))
                  \<lparr> idx := Some i, supervision := Some sup \<rparr>"
proof -
  from assms obtain f g p prob fl configs where
    a: "MPNDataset fs (database self) ReadOnly = Inr f" "collection f (trajectory_key self) = Inr g"
       "lookup_pidx g i = Inr p" "get_problem f p = Inr prob" "get_flattened_obstacles f p = Inr fl"
       "state_range g i (action_chunk_length self + 1) = Inr configs" and
    b: "(case configs of
           [] \<Rightarrow> Inl IndexError
         | config # rest \<Rightarrow>
             bind_err (configuration_and_robot_points e noise w self config) (\<lambda>(c, robot_points).
             bind_err (clamp_and_normalize_rows (JOINT_LIMITS e) rest) (\<lambda>sup.
             Inr ((prepend_robot_points robot_points ((get_inputs e w self prob fl) \<lparr> configuration := Some c \<rparr>))
                    \<lparr> idx := Some i, supervision := Some sup \<rparr>)))) = Inr it"
    by (auto simp: StateDataset_getitem_def Let_def bind_err_Inr)
  from b obtain config rest where c: "configs = config # rest" by (cases configs) simp_all
  from b c obtain cn rp sup where
    d: "configuration_and_robot_points e noise w self config = Inr (cn, rp)"
       "clamp_and_normalize_rows (JOINT_LIMITS e) rest = Inr sup"
       "it = (prepend_robot_points rp ((get_inputs e w self prob fl) \<lparr> configuration := Some cn \<rparr>))
                  \<lparr> idx := Some i, supervision := Some sup \<rparr>"
    by (auto simp: bind_err_Inr split: prod.splits)
  from a c d show ?thesis by blast
qed

lemma TrajectoryDataset_getitem_Inr:
  assumes "TrajectoryDataset_getitem e fs noise w self p = Inr it"
  shows "\<exists>f g prob fl c rp ex.
           MPNDataset fs (database self) ReadOnly = Inr f
         \<and> collection f (trajectory_key self) = Inr g
         \<and> get_problem f p = Inr prob
         \<and> get_flattened_obstacles f p = Inr fl
         \<and> configuration_and_robot_points e noise w self (q0 prob) = Inr (c, rp)
         \<and> get_padded_expert g p = Inr ex
         \<and> it = (prepend_robot_points rp ((get_inputs e w self prob fl) \<lparr> configuration := Some c \<rparr>))
                  \<lparr> item.expert := Some ex, pidx := Some p \<rparr>"
  using assms
  by (auto simp: TrajectoryDataset_getitem_def Let_def bind_err_Inr split: prod.splits)

lemma configuration_and_robot_points_Inr:
  assumes "configuration_and_robot_points e noise w self config = Inr (c, rp)"
  shows "\<exists>x. x = (if train self
                  then map2 (\<lambda>z c. random_scale self * z + c) (randn noise (length config)) config
                  else config)
           \<and> clamp_and_normalize (JOINT_LIMITS e) x = Inr c
           \<and> rp = map (take 3) (sample e (robot_draw w) (num_robot_points self) x (prismatic_joint self))"
  using assms
  by (auto simp: configuration_and_robot_points_def Let_def bind_err_Inr split: if_splits)

lemma labels_of_assembled_item:
  "point_cloud_labels (prepend_robot_points rp ((get_inputs e w self prob fl) \<lparr> configuration := c \<rparr>))
     = replicate (length rp) [0]
       @ replicate (length (construct_mixed_point_cloud e (scene_draw w) (obstacles prob) (num_obstacle_points self))) [1]
       @ replicate (length (sample_end_effector e (target_draw w) (num_target_points self)
            (right_gripper_pose e (target prob) (prismatic_joint self)) (prismatic_joint self))) [2]"
  by (simp add: prepend_robot_points_def get_inputs_def Let_def)

lemma point_cloud_of_assembled_item:
  "point_cloud (prepend_robot_points rp ((get_inputs e w self prob fl) \<lparr> configuration := c \<rparr>))
     = rp
       @ map (take 3) (construct_mixed_point_cloud e (scene_draw w) (obstacles prob) (num_obstacle_points self))
       @ map (take 3) (sample_end_effector e (target_draw w) (num_target_points self)
            (right_gripper_pose e (target prob) (prismatic_joint self)) (prismatic_joint self))"
  by (simp add: prepend_robot_points_def get_inputs_def Let_def)

text \<open>
  Evaluating the functions on the small archive unfolds these definitions.
\<close>

lemmas example_defs = example_draws_def example_fs_empty_def example_state_dataset_def example_trajectory_dataset_def example_fs_def
  example_fs_test_def example_archive_def example_env_def example_limits_def example_problem_def
  example_flobs_def example_data_module_def

lemmas getitem_defs = StateDataset_getitem_def TrajectoryDataset_getitem_def MPNDataset_def
  collection_def bind_err_def get_problem_def get_flattened_obstacles_def get_padded_expert_def
  get_inputs_def configuration_and_robot_points_def prepend_robot_points_def clamp_and_normalize_def
  clamp_def torch_maximum_def torch_minimum_def broadcast2_def normalize_franka_joints_def randn_def
  Let_def

lemma example_state_item:
  "\<exists>it. StateDataset_getitem example_env example_fs (\<lambda>k. 1) example_draws (example_state_dataset tr 1) 0 = Inr it"
  by (simp add: example_defs getitem_defs)

lemma example_trajectory_item:
  "\<exists>it. TrajectoryDataset_getitem example_env example_fs (\<lambda>k. 1) example_draws (example_trajectory_dataset tr 1) 1 = Inr it"
  by (simp add: example_defs getitem_defs)

section \<open>Shape of the point cloud\<close>

text \<open>
  C1. Provided the three samplers return as many rows as they are asked for, every
  example that \<open>StateDataset.__getitem__\<close> or \<open>TrajectoryDataset.__getitem__\<close>
  returns has a point cloud of \<open>num_robot_points + num_obstacle_points + num_target_points\<close>
  rows, and its labels are \<open>num_robot_points\<close> zeros, then \<open>num_obstacle_points\<close>
  ones, then \<open>num_target_points\<close> twos. The rows are in that order too: the point cloud is
  the robot sampler's points, followed by the scene sampler's points for the obstacles of
  the problem, followed by the end-effector sampler's points at the target pose of the
  problem.
\<close>

theorem point_cloud_shape:
  assumes "\<forall>d n cfg pj. length (sample e d n cfg pj) = n"
      and "\<forall>d n pose pj. length (sample_end_effector e d n pose pj) = n"
      and "\<forall>d obs n. length (construct_mixed_point_cloud e d obs n) = n"
  shows "(\<forall>it. StateDataset_getitem e fs noise w sd i = Inr it \<longrightarrow>
            length (point_cloud it) = num_robot_points sd + num_obstacle_points sd + num_target_points sd
          \<and> point_cloud_labels it =
              replicate (num_robot_points sd) [0] @ replicate (num_obstacle_points sd) [1]
              @ replicate (num_target_points sd) [2]
          \<and> (\<exists>f g p prob cfg.
                MPNDataset fs (database sd) ReadOnly = Inr f
              \<and> collection f (trajectory_key sd) = Inr g
              \<and> lookup_pidx g i = Inr p
              \<and> get_problem f p = Inr prob
              \<and> point_cloud it =
                  map (take 3) (sample e (robot_draw w) (num_robot_points sd) cfg (prismatic_joint sd))
                  @ map (take 3)
                      (construct_mixed_point_cloud e (scene_draw w) (obstacles prob) (num_obstacle_points sd))
                  @ map (take 3)
                      (sample_end_effector e (target_draw w) (num_target_points sd)
                         (right_gripper_pose e (target prob) (prismatic_joint sd)) (prismatic_joint sd))))
       \<and> (\<forall>it. TrajectoryDataset_getitem e fs noise w td p = Inr it \<longrightarrow>
            length (point_cloud it) = num_robot_points td + num_obstacle_points td + num_target_points td
          \<and> point_cloud_labels it =
              replicate (num_robot_points td) [0] @ replicate (num_obstacle_points td) [1]
              @ replicate (num_target_points td) [2]
          \<and> (\<exists>f prob cfg.
                MPNDataset fs (database td) ReadOnly = Inr f
              \<and> get_problem f p = Inr prob
              \<and> point_cloud it =
                  map (take 3) (sample e (robot_draw w) (num_robot_points td) cfg (prismatic_joint td))
                  @ map (take 3)
                      (construct_mixed_point_cloud e (scene_draw w) (obstacles prob) (num_obstacle_points td))
                  @ map (take 3)
                      (sample_end_effector e (target_draw w) (num_target_points td)
                         (right_gripper_pose e (target prob) (prismatic_joint td)) (prismatic_joint td))))"
proof (intro conjI allI impI)
  fix it assume "StateDataset_getitem e fs noise w sd i = Inr it"
  from StateDataset_getitem_Inr[OF this] obtain f g q prob fl config c rp out where
    a: "MPNDataset fs (database sd) ReadOnly = Inr f" "collection f (trajectory_key sd) = Inr g"
       "lookup_pidx g i = Inr q" "get_problem f q = Inr prob" and
    crp: "configuration_and_robot_points e noise w sd config = Inr (c, rp)" and
    it: "it = (prepend_robot_points rp ((get_inputs e w sd prob fl) \<lparr> configuration := Some c \<rparr>))
                  \<lparr> idx := Some i, supervision := Some out \<rparr>" by blast
  from configuration_and_robot_points_Inr[OF crp] obtain cfg where
    rpe: "rp = map (take 3) (sample e (robot_draw w) (num_robot_points sd) cfg (prismatic_joint sd))"
    by blast
  from rpe assms(1) have rp: "length rp = num_robot_points sd" by simp
  show "length (point_cloud it) = num_robot_points sd + num_obstacle_points sd + num_target_points sd"
    using rp assms(2,3) by (simp add: it point_cloud_of_assembled_item)
  show "point_cloud_labels it =
              replicate (num_robot_points sd) [0] @ replicate (num_obstacle_points sd) [1]
              @ replicate (num_target_points sd) [2]"
    using rp assms(2,3) by (simp add: it labels_of_assembled_item)
  have "point_cloud it =
                  map (take 3) (sample e (robot_draw w) (num_robot_points sd) cfg (prismatic_joint sd))
                  @ map (take 3)
                      (construct_mixed_point_cloud e (scene_draw w) (obstacles prob) (num_obstacle_points sd))
                  @ map (take 3)
                      (sample_end_effector e (target_draw w) (num_target_points sd)
                         (right_gripper_pose e (target prob) (prismatic_joint sd)) (prismatic_joint sd))"
    by (simp add: it point_cloud_of_assembled_item rpe)
  with a show "\<exists>f g p prob cfg.
                MPNDataset fs (database sd) ReadOnly = Inr f
              \<and> collection f (trajectory_key sd) = Inr g
              \<and> lookup_pidx g i = Inr p
              \<and> get_problem f p = Inr prob
              \<and> point_cloud it =
                  map (take 3) (sample e (robot_draw w) (num_robot_points sd) cfg (prismatic_joint sd))
                  @ map (take 3)
                      (construct_mixed_point_cloud e (scene_draw w) (obstacles prob) (num_obstacle_points sd))
                  @ map (take 3)
                      (sample_end_effector e (target_draw w) (num_target_points sd)
                         (right_gripper_pose e (target prob) (prismatic_joint sd)) (prismatic_joint sd))"
    by blast
next
  fix it assume "TrajectoryDataset_getitem e fs noise w td p = Inr it"
  from TrajectoryDataset_getitem_Inr[OF this] obtain f prob fl c rp ex where
    a: "MPNDataset fs (database td) ReadOnly = Inr f" "get_problem f p = Inr prob" and
    crp: "configuration_and_robot_points e noise w td (q0 prob) = Inr (c, rp)" and
    it: "it = (prepend_robot_points rp ((get_inputs e w td prob fl) \<lparr> configuration := Some c \<rparr>))
                  \<lparr> item.expert := Some ex, pidx := Some p \<rparr>" by blast
  from configuration_and_robot_points_Inr[OF crp] obtain cfg where
    rpe: "rp = map (take 3) (sample e (robot_draw w) (num_robot_points td) cfg (prismatic_joint td))"
    by blast
  from rpe assms(1) have rp: "length rp = num_robot_points td" by simp
  show "length (point_cloud it) = num_robot_points td + num_obstacle_points td + num_target_points td"
    using rp assms(2,3) by (simp add: it point_cloud_of_assembled_item)
  show "point_cloud_labels it =
              replicate (num_robot_points td) [0] @ replicate (num_obstacle_points td) [1]
              @ replicate (num_target_points td) [2]"
    using rp assms(2,3) by (simp add: it labels_of_assembled_item)
  have "point_cloud it =
                  map (take 3) (sample e (robot_draw w) (num_robot_points td) cfg (prismatic_joint td))
                  @ map (take 3)
                      (construct_mixed_point_cloud e (scene_draw w) (obstacles prob) (num_obstacle_points td))
                  @ map (take 3)
                      (sample_end_effector e (target_draw w) (num_target_points td)
                         (right_gripper_pose e (target prob) (prismatic_joint td)) (prismatic_joint td))"
    by (simp add: it point_cloud_of_assembled_item rpe)
  with a show "\<exists>f prob cfg.
                MPNDataset fs (database td) ReadOnly = Inr f
              \<and> get_problem f p = Inr prob
              \<and> point_cloud it =
                  map (take 3) (sample e (robot_draw w) (num_robot_points td) cfg (prismatic_joint td))
                  @ map (take 3)
                      (construct_mixed_point_cloud e (scene_draw w) (obstacles prob) (num_obstacle_points td))
                  @ map (take 3)
                      (sample_end_effector e (target_draw w) (num_target_points td)
                         (right_gripper_pose e (target prob) (prismatic_joint td)) (prismatic_joint td))"
    by blast
qed

text \<open>
  On the small archive: two robot points, three scene points, one target point. The
  example samplers mark their rows in the third column (5 for scene points, 7 for target
  points), so the rows show the order: robot, scene, target.
\<close>

theorem point_cloud_shape_witness:
  "(\<exists>it. StateDataset_getitem example_env example_fs (\<lambda>k. 1) example_draws (example_state_dataset True 1) 0 = Inr it
         \<and> length (point_cloud it) = 2 + 3 + 1
         \<and> point_cloud_labels it = [[0], [0], [1], [1], [1], [2]]
         \<and> point_cloud it = [[8, 0, 0], [8, 0, 0], [1, 0, 5], [1, 0, 5], [1, 0, 5], [0, 0, 7]])
 \<and> (\<exists>it. TrajectoryDataset_getitem example_env example_fs (\<lambda>k. 1) example_draws (example_trajectory_dataset False 1) 1 = Inr it
         \<and> length (point_cloud it) = 2 + 3 + 1
         \<and> point_cloud_labels it = [[0], [0], [1], [1], [1], [2]]
         \<and> point_cloud it = [[1, 0, 0], [1, 0, 0], [1, 0, 5], [1, 0, 5], [1, 0, 5], [0, 0, 7]])"
proof -
  have s: "\<forall>d n cfg pj. length (sample example_env d n cfg pj) = n"
    and t: "\<forall>d n pose pj. length (sample_end_effector example_env d n pose pj) = n"
    and o: "\<forall>d obs n. length (construct_mixed_point_cloud example_env d obs n) = n"
    by (simp_all add: example_env_def)
  obtain a b where
    a: "StateDataset_getitem example_env example_fs (\<lambda>k. 1) example_draws (example_state_dataset True 1) 0 = Inr a" and
    b: "TrajectoryDataset_getitem example_env example_fs (\<lambda>k. 1) example_draws (example_trajectory_dataset False 1) 1 = Inr b"
    using example_state_item example_trajectory_item by blast
  have pa: "point_cloud a = [[8, 0, 0], [8, 0, 0], [1, 0, 5], [1, 0, 5], [1, 0, 5], [0, 0, 7]]"
    using a by (auto simp: example_defs getitem_defs numeral_2_eq_2 numeral_3_eq_3)
  have pb: "point_cloud b = [[1, 0, 0], [1, 0, 0], [1, 0, 5], [1, 0, 5], [1, 0, 5], [0, 0, 7]]"
    using b by (auto simp: example_defs getitem_defs numeral_2_eq_2 numeral_3_eq_3)
  from point_cloud_shape [OF s t o, of example_fs "\<lambda>k. 1" example_draws "example_state_dataset True 1" 0
      "example_trajectory_dataset False 1" 1] a b pa pb
  show ?thesis
    by (simp add: example_state_dataset_def example_trajectory_dataset_def numeral_2_eq_2 numeral_3_eq_3)
qed

section \<open>Noise on the current configuration\<close>

text \<open>
  C2. In \<open>StateDataset.__getitem__\<close> with \<open>train\<close> set, the noise
  \<open>random_scale * randn\<close> is added to the first element of the fetched window only.
  The returned configuration is \<open>clamp_and_normalize\<close> of that noised value, the robot
  points at the head of the point cloud are sampled at the same noised value, and the
  supervision is \<open>clamp_and_normalize\<close> of the remaining window elements as the archive
  holds them.
\<close>

theorem train_noise_on_configuration_only:
  assumes "train self"
      and "StateDataset_getitem e fs noise w self i = Inr it"
  shows "\<exists>f g config rest randomized robot_points c out.
           MPNDataset fs (database self) ReadOnly = Inr f
         \<and> collection f (trajectory_key self) = Inr g
         \<and> state_range g i (action_chunk_length self + 1) = Inr (config # rest)
         \<and> randomized = map2 (\<lambda>z c. random_scale self * z + c) (randn noise (length config)) config
         \<and> clamp_and_normalize (JOINT_LIMITS e) randomized = Inr c
         \<and> configuration it = Some c
         \<and> robot_points = map (take 3) (sample e (robot_draw w) (num_robot_points self) randomized (prismatic_joint self))
         \<and> take (length robot_points) (point_cloud it) = robot_points
         \<and> clamp_and_normalize_rows (JOINT_LIMITS e) rest = Inr out
         \<and> supervision it = Some out"
proof -
  from StateDataset_getitem_Inr[OF assms(2)] obtain f g p prob fl config rest c rp out where
    a: "MPNDataset fs (database self) ReadOnly = Inr f" "collection f (trajectory_key self) = Inr g"
       "state_range g i (action_chunk_length self + 1) = Inr (config # rest)"
       "configuration_and_robot_points e noise w self config = Inr (c, rp)"
       "clamp_and_normalize_rows (JOINT_LIMITS e) rest = Inr out" and
    it: "it = (prepend_robot_points rp ((get_inputs e w self prob fl) \<lparr> configuration := Some c \<rparr>))
                  \<lparr> idx := Some i, supervision := Some out \<rparr>" by blast
  let ?r = "map2 (\<lambda>z c. random_scale self * z + c) (randn noise (length config)) config"
  from configuration_and_robot_points_Inr[OF a(4)] assms(1) have
    c: "clamp_and_normalize (JOINT_LIMITS e) ?r = Inr c"
       "rp = map (take 3) (sample e (robot_draw w) (num_robot_points self) ?r (prismatic_joint self))"
    by auto
  have "configuration it = Some c" "supervision it = Some out" "take (length rp) (point_cloud it) = rp"
    by (simp_all add: it prepend_robot_points_def)
  with a c show ?thesis by blast
qed

text \<open>
  On the small archive with every draw equal to 1: the first state \<open>[1, 0, 0, -1, 0, 1, 0]\<close>
  becomes \<open>[2, 1, 1, 0, 1, 2, 1]\<close>, whose entries sum to 8, the first coordinate of the
  example sampler's robot points.
\<close>

theorem train_noise_on_configuration_only_witness:
  "\<exists>it. StateDataset_getitem example_env example_fs (\<lambda>k. 1) example_draws (example_state_dataset True 1) 0 = Inr it
      \<and> configuration it = Some [1, 1, 1 / 2, 1, 1 / 2, 0, 1 / 2]
      \<and> take 2 (point_cloud it) = [[8, 0, 0], [8, 0, 0]]
      \<and> supervision it = Some [[1, 0, 0, 1 / 3, 0, -1 / 2, 0], [1, 0, 0, 1 / 3, 0, -1 / 2, 0]]"
proof -
  obtain a where
    a: "StateDataset_getitem example_env example_fs (\<lambda>k. 1) example_draws (example_state_dataset True 1) 0 = Inr a"
    using example_state_item by blast
  have tr: "train (example_state_dataset True 1)" by (simp add: example_state_dataset_def)
  from train_noise_on_configuration_only [OF tr a] a show ?thesis
    by (auto simp: example_defs getitem_defs numeral_2_eq_2)
qed

section \<open>Rows of the supervision\<close>

lemma state_range_window:
  "lookup_pidx g i = Inr p \<Longrightarrow>
     p < length g \<and> count_states (take p g) \<le> i
   \<and> i - count_states (take p g) < length (solution.expert (g ! p))
   \<and> state_range g i lookahead
       = Inr (take lookahead (drop (i - count_states (take p g)) (solution.expert (g ! p))))"
proof (induction g arbitrary: i p)
  case Nil
  then show ?case by simp
next
  case (Cons s g)
  show ?case
  proof (cases "i < length (solution.expert s)")
    case True
    with Cons.prems show ?thesis by (auto simp: count_states_def)
  next
    case False
    with Cons.prems obtain p' where p': "lookup_pidx g (i - length (solution.expert s)) = Inr p'" "p = Suc p'"
      by (auto simp: bind_err_Inr)
    from Cons.IH[OF p'(1)] False p'(2) show ?thesis
      by (auto simp: count_states_def)
  qed
qed

lemma clamp_and_normalize_length:
  "length limits = 7 \<Longrightarrow> clamp_and_normalize limits r = Inr r' \<Longrightarrow> length r' = 7"
  by (auto simp: clamp_and_normalize_def clamp_def torch_maximum_def torch_minimum_def broadcast2_def
      normalize_franka_joints_def bind_err_Inr split: if_splits)

lemma clamp_and_normalize_rows_shape:
  "length limits = 7 \<Longrightarrow> clamp_and_normalize_rows limits rows = Inr out \<Longrightarrow>
   length out = length rows \<and> (\<forall>r \<in> set out. length r = 7)"
proof (induction rows arbitrary: out)
  case Nil
  then show ?case by simp
next
  case (Cons r rows)
  from Cons.prems(2) obtain r' out' where
    s: "clamp_and_normalize limits r = Inr r'" "clamp_and_normalize_rows limits rows = Inr out'" "out = r' # out'"
    by (auto simp: bind_err_Inr)
  from Cons.IH[OF Cons.prems(1) s(2)] clamp_and_normalize_length[OF Cons.prems(1) s(1)] s(3)
  show ?case by simp
qed

text \<open>
  C3, as amended. With seven joint limits, the supervision of a returned example has
  \<open>min K (L - 1 - t)\<close> rows of seven values, where \<open>K\<close> is \<open>action_chunk_length\<close>,
  \<open>L\<close> the length of the trajectory that holds the state and \<open>t\<close> the position of
  the state in it: \<open>K\<close> rows when at least \<open>K\<close> states follow in the trajectory, fewer
  near its end.
\<close>

theorem supervision_rows_truncated:
  assumes "length (JOINT_LIMITS e) = 7"
      and "StateDataset_getitem e fs noise w self i = Inr it"
  shows "\<exists>f g p sup.
           MPNDataset fs (database self) ReadOnly = Inr f
         \<and> collection f (trajectory_key self) = Inr g
         \<and> lookup_pidx g i = Inr p \<and> p < length g
         \<and> supervision it = Some sup
         \<and> length sup = min (action_chunk_length self)
                            (length (solution.expert (g ! p)) - 1 - (i - count_states (take p g)))
         \<and> (\<forall>r \<in> set sup. length r = 7)"
proof -
  from StateDataset_getitem_Inr[OF assms(2)] obtain f g p prob fl config rest c rp sup where
    a: "MPNDataset fs (database self) ReadOnly = Inr f" "collection f (trajectory_key self) = Inr g"
       "lookup_pidx g i = Inr p"
       "state_range g i (action_chunk_length self + 1) = Inr (config # rest)"
       "clamp_and_normalize_rows (JOINT_LIMITS e) rest = Inr sup" and
    it: "it = (prepend_robot_points rp ((get_inputs e w self prob fl) \<lparr> configuration := Some c \<rparr>))
                  \<lparr> idx := Some i, supervision := Some sup \<rparr>" by blast
  let ?t = "i - count_states (take p g)"
  from state_range_window[OF a(3), of "action_chunk_length self + 1"] a(4) have
    w: "p < length g" "?t < length (solution.expert (g ! p))"
       "config # rest = take (action_chunk_length self + 1) (drop ?t (solution.expert (g ! p)))"
    by auto
  from w(3) have "length (config # rest) = min (action_chunk_length self + 1) (length (solution.expert (g ! p)) - ?t)"
    by (metis length_take length_drop min.commute)
  then have lr: "length rest = min (action_chunk_length self) (length (solution.expert (g ! p)) - 1 - ?t)"
    using w(2) by auto
  from clamp_and_normalize_rows_shape[OF assms(1) a(5)] lr have
    "length sup = min (action_chunk_length self) (length (solution.expert (g ! p)) - 1 - ?t)"
    "\<forall>r \<in> set sup. length r = 7" by auto
  moreover have "supervision it = Some sup" by (simp add: it)
  ultimately show ?thesis using a w(1) by blast
qed

text \<open>
  At the first state of a trajectory of three states, with \<open>K = 2\<close>, there are two rows.
\<close>

theorem supervision_rows_truncated_witness:
  "\<exists>it out. StateDataset_getitem example_env example_fs (\<lambda>k. 1) example_draws (example_state_dataset True 1) 0 = Inr it
      \<and> supervision it = Some out \<and> length out = 2 \<and> (\<forall>r \<in> set out. length r = 7)"
proof -
  obtain a where
    a: "StateDataset_getitem example_env example_fs (\<lambda>k. 1) example_draws (example_state_dataset True 1) 0 = Inr a"
    using example_state_item by blast
  have l: "length (JOINT_LIMITS example_env) = 7" by (simp add: example_env_def example_limits_def)
  from supervision_rows_truncated [OF l a] a show ?thesis
    by (auto simp: example_defs MPNDataset_def collection_def count_states_def bind_err_def)
qed

text \<open>
  C3 as stated fails: index 2 is valid (the dataset has five states) and is the last
  state of the first trajectory; its supervision has no row, although \<open>K = 2\<close>.
\<close>

theorem supervision_rows_at_trajectory_end:
  "StateDataset_init example_fs [''data'', ''train'', ''train.hdf5''] (Member VAL_STATE) ''global_solutions'' 2 3 1 0 1 2
     = Inr (example_state_dataset False 1)
   \<and> StateDataset_len (example_state_dataset False 1) = 5
   \<and> action_chunk_length (example_state_dataset False 1) = 2
   \<and> map_sum id supervision
       (StateDataset_getitem example_env example_fs (\<lambda>k. 1) example_draws (example_state_dataset False 1) 2)
     = Inr (Some [])"
  by (simp add: example_defs getitem_defs StateDataset_init_def Base_init_def exists_path_def
      count_states_def count_trajectories_def StateDataset_len_def Base.defs StateDataset.defs)

section \<open>Noise isolation\<close>

lemma scale_zero_noise:
  "map2 (\<lambda>z c. c) (randn noise (length config)) config = config"
proof -
  have "map2 (\<lambda>z c. c) zs config = config" if "length zs = length config" for zs :: "real list"
    using that by (induction zs config rule: list_induct2) auto
  then show ?thesis by (simp add: randn_def)
qed

lemma configuration_and_robot_points_eval:
  "\<not> train a \<Longrightarrow> train b = False \<or> random_scale b = 0 \<Longrightarrow>
   num_robot_points a = num_robot_points b \<Longrightarrow> prismatic_joint a = prismatic_joint b \<Longrightarrow>
   configuration_and_robot_points e noise1 w a config = configuration_and_robot_points e noise2 w b config"
  by (auto simp: configuration_and_robot_points_def Let_def scale_zero_noise)

lemma get_inputs_fields:
  "num_obstacle_points a = num_obstacle_points b \<Longrightarrow> num_target_points a = num_target_points b \<Longrightarrow>
   prismatic_joint a = prismatic_joint b \<Longrightarrow> get_inputs e w a prob fl = get_inputs e w b prob fl"
  by (simp add: get_inputs_def)

lemma StateDataset_getitem_cong:
  assumes "\<not> train a" "train b = False \<or> random_scale b = 0"
    "database a = database b" "trajectory_key a = trajectory_key b"
    "num_robot_points a = num_robot_points b" "num_obstacle_points a = num_obstacle_points b"
    "num_target_points a = num_target_points b" "prismatic_joint a = prismatic_joint b"
    "action_chunk_length a = action_chunk_length b"
  shows "StateDataset_getitem e fs noise1 w a i = StateDataset_getitem e fs noise2 w b i"
  unfolding StateDataset_getitem_def
  using assms(3,4,9) get_inputs_fields[OF assms(6,7,8), of e]
    configuration_and_robot_points_eval[OF assms(1,2,5,8), where e=e and ?noise1.0=noise1 and ?noise2.0=noise2]
  by simp

lemma TrajectoryDataset_getitem_cong:
  assumes "\<not> train a" "train b = False \<or> random_scale b = 0"
    "database a = database b" "trajectory_key a = trajectory_key b"
    "num_robot_points a = num_robot_points b" "num_obstacle_points a = num_obstacle_points b"
    "num_target_points a = num_target_points b" "prismatic_joint a = prismatic_joint b"
  shows "TrajectoryDataset_getitem e fs noise1 w a p = TrajectoryDataset_getitem e fs noise2 w b p"
  unfolding TrajectoryDataset_getitem_def
  using assms(3,4) get_inputs_fields[OF assms(6,7,8), of e]
    configuration_and_robot_points_eval[OF assms(1,2,5,8), where e=e and ?noise1.0=noise1 and ?noise2.0=noise2]
  by simp

text \<open>
  Apart from the point cloud and its labels, an example does not depend on what the
  samplers draw.
\<close>

lemma get_inputs_draws:
  "(get_inputs e w1 self prob fl) \<lparr> point_cloud := x, point_cloud_labels := y \<rparr>
   = (get_inputs e w2 self prob fl) \<lparr> point_cloud := x, point_cloud_labels := y \<rparr>"
  by (simp add: get_inputs_def Let_def)

lemma assembled_item_draws:
  "(prepend_robot_points rp1 ((get_inputs e w1 self prob fl) \<lparr> configuration := c \<rparr>))
     \<lparr> point_cloud := [], point_cloud_labels := [] \<rparr>
   = (prepend_robot_points rp2 ((get_inputs e w2 self prob fl) \<lparr> configuration := c \<rparr>))
     \<lparr> point_cloud := [], point_cloud_labels := [] \<rparr>"
  by (simp add: get_inputs_def Let_def prepend_robot_points_def)

lemma labels_of_returned_state_item:
  assumes "\<forall>d n cfg pj. length (sample e d n cfg pj) = n"
      and "\<forall>d n pose pj. length (sample_end_effector e d n pose pj) = n"
      and "\<forall>d obs n. length (construct_mixed_point_cloud e d obs n) = n"
      and "StateDataset_getitem e fs noise w sd i = Inr it"
  shows "point_cloud_labels it =
           replicate (num_robot_points sd) [0] @ replicate (num_obstacle_points sd) [1]
           @ replicate (num_target_points sd) [2]"
proof -
  from StateDataset_getitem_Inr[OF assms(4)] obtain prob fl config c rp out where
    crp: "configuration_and_robot_points e noise w sd config = Inr (c, rp)" and
    it: "it = (prepend_robot_points rp ((get_inputs e w sd prob fl) \<lparr> configuration := Some c \<rparr>))
                  \<lparr> idx := Some i, supervision := Some out \<rparr>" by blast
  from configuration_and_robot_points_Inr[OF crp] assms(1) have "length rp = num_robot_points sd"
    by auto
  then show ?thesis using assms(2,3) by (simp add: it labels_of_assembled_item)
qed

lemma labels_of_returned_trajectory_item:
  assumes "\<forall>d n cfg pj. length (sample e d n cfg pj) = n"
      and "\<forall>d n pose pj. length (sample_end_effector e d n pose pj) = n"
      and "\<forall>d obs n. length (construct_mixed_point_cloud e d obs n) = n"
      and "TrajectoryDataset_getitem e fs noise w td p = Inr it"
  shows "point_cloud_labels it =
           replicate (num_robot_points td) [0] @ replicate (num_obstacle_points td) [1]
           @ replicate (num_target_points td) [2]"
proof -
  from TrajectoryDataset_getitem_Inr[OF assms(4)] obtain prob fl c rp ex where
    crp: "configuration_and_robot_points e noise w td (q0 prob) = Inr (c, rp)" and
    it: "it = (prepend_robot_points rp ((get_inputs e w td prob fl) \<lparr> configuration := Some c \<rparr>))
                  \<lparr> item.expert := Some ex, pidx := Some p \<rparr>" by blast
  from configuration_and_robot_points_Inr[OF crp] assms(1) have "length rp = num_robot_points td"
    by auto
  then show ?thesis using assms(2,3) by (simp add: it labels_of_assembled_item)
qed

lemma StateDataset_getitem_draws:
  assumes "\<not> train sd"
      and "StateDataset_getitem e fs noise1 w1 sd i = Inr a"
      and "StateDataset_getitem e fs noise2 w2 sd i = Inr b"
  shows "a \<lparr> point_cloud := [], point_cloud_labels := [] \<rparr>
         = b \<lparr> point_cloud := [], point_cloud_labels := [] \<rparr>"
proof -
  from StateDataset_getitem_Inr[OF assms(2)] obtain f g q prob fl config rest c rp out where
    a: "MPNDataset fs (database sd) ReadOnly = Inr f" "collection f (trajectory_key sd) = Inr g"
       "lookup_pidx g i = Inr q" "get_problem f q = Inr prob" "get_flattened_obstacles f q = Inr fl"
       "state_range g i (action_chunk_length sd + 1) = Inr (config # rest)"
       "configuration_and_robot_points e noise1 w1 sd config = Inr (c, rp)"
       "clamp_and_normalize_rows (JOINT_LIMITS e) rest = Inr out" and
    ia: "a = (prepend_robot_points rp ((get_inputs e w1 sd prob fl) \<lparr> configuration := Some c \<rparr>))
                  \<lparr> idx := Some i, supervision := Some out \<rparr>" by blast
  from StateDataset_getitem_Inr[OF assms(3)] a(1-6,8) obtain c' rp' where
    b: "configuration_and_robot_points e noise2 w2 sd config = Inr (c', rp')" and
    ib: "b = (prepend_robot_points rp' ((get_inputs e w2 sd prob fl) \<lparr> configuration := Some c' \<rparr>))
                  \<lparr> idx := Some i, supervision := Some out \<rparr>" by auto
  from configuration_and_robot_points_Inr[OF a(7)] configuration_and_robot_points_Inr[OF b] assms(1)
  have "c' = c" by auto
  then show ?thesis
    unfolding ia ib by (simp add: get_inputs_def Let_def prepend_robot_points_def)
qed

lemma TrajectoryDataset_getitem_draws:
  assumes "\<not> train td"
      and "TrajectoryDataset_getitem e fs noise1 w1 td p = Inr a"
      and "TrajectoryDataset_getitem e fs noise2 w2 td p = Inr b"
  shows "a \<lparr> point_cloud := [], point_cloud_labels := [] \<rparr>
         = b \<lparr> point_cloud := [], point_cloud_labels := [] \<rparr>"
proof -
  from TrajectoryDataset_getitem_Inr[OF assms(2)] obtain f g prob fl c rp ex where
    a: "MPNDataset fs (database td) ReadOnly = Inr f" "collection f (trajectory_key td) = Inr g"
       "get_problem f p = Inr prob" "get_flattened_obstacles f p = Inr fl"
       "configuration_and_robot_points e noise1 w1 td (q0 prob) = Inr (c, rp)"
       "get_padded_expert g p = Inr ex" and
    ia: "a = (prepend_robot_points rp ((get_inputs e w1 td prob fl) \<lparr> configuration := Some c \<rparr>))
                  \<lparr> item.expert := Some ex, pidx := Some p \<rparr>" by blast
  from TrajectoryDataset_getitem_Inr[OF assms(3)] a(1-4,6) obtain c' rp' where
    b: "configuration_and_robot_points e noise2 w2 td (q0 prob) = Inr (c', rp')" and
    ib: "b = (prepend_robot_points rp' ((get_inputs e w2 td prob fl) \<lparr> configuration := Some c' \<rparr>))
                  \<lparr> item.expert := Some ex, pidx := Some p \<rparr>" by auto
  from configuration_and_robot_points_Inr[OF a(5)] configuration_and_robot_points_Inr[OF b] assms(1)
  have "c' = c" by auto
  then show ?thesis
    unfolding ia ib by (simp add: get_inputs_def Let_def prepend_robot_points_def)
qed

text \<open>
  C4, as amended. With \<open>train\<close> unset, \<open>__getitem__\<close> does not read the draw of
  \<open>torch.randn\<close>: for the same sampler draws it returns the same result whatever that
  draw. Across two accesses in which the samplers draw differently, the configuration and
  every field other than the point cloud and its labels are identical, and so are the
  labels when the samplers return as many rows as they are asked for; the points of the
  point cloud are what the samplers drew. With \<open>train\<close> set and \<open>random_scale = 0\<close>
  the result is the one the same dataset gives with \<open>train\<close> unset, for the same sampler
  draws. All of this holds for \<open>StateDataset\<close> and \<open>TrajectoryDataset\<close>.
\<close>

theorem noise_isolation:
  "(\<not> train sd \<longrightarrow>
      StateDataset_getitem e fs noise1 w sd i = StateDataset_getitem e fs noise2 w sd i
    \<and> (\<forall>a b. StateDataset_getitem e fs noise1 w1 sd i = Inr a
           \<longrightarrow> StateDataset_getitem e fs noise2 w2 sd i = Inr b
           \<longrightarrow> configuration a = configuration b
             \<and> a \<lparr> point_cloud := [], point_cloud_labels := [] \<rparr>
                 = b \<lparr> point_cloud := [], point_cloud_labels := [] \<rparr>
             \<and> ((\<forall>d n cfg pj. length (sample e d n cfg pj) = n)
                  \<and> (\<forall>d n pose pj. length (sample_end_effector e d n pose pj) = n)
                  \<and> (\<forall>d obs n. length (construct_mixed_point_cloud e d obs n) = n)
                \<longrightarrow> point_cloud_labels a = point_cloud_labels b)))
 \<and> (\<not> train td \<longrightarrow>
      TrajectoryDataset_getitem e fs noise1 w td p = TrajectoryDataset_getitem e fs noise2 w td p
    \<and> (\<forall>a b. TrajectoryDataset_getitem e fs noise1 w1 td p = Inr a
           \<longrightarrow> TrajectoryDataset_getitem e fs noise2 w2 td p = Inr b
           \<longrightarrow> configuration a = configuration b
             \<and> a \<lparr> point_cloud := [], point_cloud_labels := [] \<rparr>
                 = b \<lparr> point_cloud := [], point_cloud_labels := [] \<rparr>
             \<and> ((\<forall>d n cfg pj. length (sample e d n cfg pj) = n)
                  \<and> (\<forall>d n pose pj. length (sample_end_effector e d n pose pj) = n)
                  \<and> (\<forall>d obs n. length (construct_mixed_point_cloud e d obs n) = n)
                \<longrightarrow> point_cloud_labels a = point_cloud_labels b)))
 \<and> (train sd \<and> random_scale sd = 0 \<longrightarrow>
      StateDataset_getitem e fs noise1 w sd i = StateDataset_getitem e fs noise2 w (sd \<lparr> train := False \<rparr>) i)
 \<and> (train td \<and> random_scale td = 0 \<longrightarrow>
      TrajectoryDataset_getitem e fs noise1 w td p = TrajectoryDataset_getitem e fs noise2 w (td \<lparr> train := False \<rparr>) p)"
proof (intro conjI impI allI)
  assume "\<not> train sd"
  then show "StateDataset_getitem e fs noise1 w sd i = StateDataset_getitem e fs noise2 w sd i"
    by (intro StateDataset_getitem_cong) simp_all
next
  fix a b
  assume t: "\<not> train sd"
     and a: "StateDataset_getitem e fs noise1 w1 sd i = Inr a"
     and b: "StateDataset_getitem e fs noise2 w2 sd i = Inr b"
  from StateDataset_getitem_draws[OF t a b]
  show eq: "a \<lparr> point_cloud := [], point_cloud_labels := [] \<rparr>
            = b \<lparr> point_cloud := [], point_cloud_labels := [] \<rparr>" .
  have "configuration (a \<lparr> point_cloud := [], point_cloud_labels := [] \<rparr>)
        = configuration (b \<lparr> point_cloud := [], point_cloud_labels := [] \<rparr>)"
    by (simp only: eq)
  then show "configuration a = configuration b" by simp
next
  fix a b
  assume a: "StateDataset_getitem e fs noise1 w1 sd i = Inr a"
     and b: "StateDataset_getitem e fs noise2 w2 sd i = Inr b"
     and c: "(\<forall>d n cfg pj. length (sample e d n cfg pj) = n)
                  \<and> (\<forall>d n pose pj. length (sample_end_effector e d n pose pj) = n)
                  \<and> (\<forall>d obs n. length (construct_mixed_point_cloud e d obs n) = n)"
  from c labels_of_returned_state_item[OF _ _ _ a] labels_of_returned_state_item[OF _ _ _ b]
  show "point_cloud_labels a = point_cloud_labels b" by simp
next
  assume "\<not> train td"
  then show "TrajectoryDataset_getitem e fs noise1 w td p = TrajectoryDataset_getitem e fs noise2 w td p"
    by (intro TrajectoryDataset_getitem_cong) simp_all
next
  fix a b
  assume t: "\<not> train td"
     and a: "TrajectoryDataset_getitem e fs noise1 w1 td p = Inr a"
     and b: "TrajectoryDataset_getitem e fs noise2 w2 td p = Inr b"
  from TrajectoryDataset_getitem_draws[OF t a b]
  show eq: "a \<lparr> point_cloud := [], point_cloud_labels := [] \<rparr>
            = b \<lparr> point_cloud := [], point_cloud_labels := [] \<rparr>" .
  have "configuration (a \<lparr> point_cloud := [], point_cloud_labels := [] \<rparr>)
        = configuration (b \<lparr> point_cloud := [], point_cloud_labels := [] \<rparr>)"
    by (simp only: eq)
  then show "configuration a = configuration b" by simp
next
  fix a b
  assume a: "TrajectoryDataset_getitem e fs noise1 w1 td p = Inr a"
     and b: "TrajectoryDataset_getitem e fs noise2 w2 td p = Inr b"
     and c: "(\<forall>d n cfg pj. length (sample e d n cfg pj) = n)
                  \<and> (\<forall>d n pose pj. length (sample_end_effector e d n pose pj) = n)
                  \<and> (\<forall>d obs n. length (construct_mixed_point_cloud e d obs n) = n)"
  from c labels_of_returned_trajectory_item[OF _ _ _ a] labels_of_returned_trajectory_item[OF _ _ _ b]
  show "point_cloud_labels a = point_cloud_labels b" by simp
next
  assume "train sd \<and> random_scale sd = 0"
  then have "StateDataset_getitem e fs noise2 w (sd \<lparr> train := False \<rparr>) i = StateDataset_getitem e fs noise1 w sd i"
    by (intro StateDataset_getitem_cong) simp_all
  then show "StateDataset_getitem e fs noise1 w sd i = StateDataset_getitem e fs noise2 w (sd \<lparr> train := False \<rparr>) i"
    by simp
next
  assume "train td \<and> random_scale td = 0"
  then have "TrajectoryDataset_getitem e fs noise2 w (td \<lparr> train := False \<rparr>) p = TrajectoryDataset_getitem e fs noise1 w td p"
    by (intro TrajectoryDataset_getitem_cong) simp_all
  then show "TrajectoryDataset_getitem e fs noise1 w td p = TrajectoryDataset_getitem e fs noise2 w (td \<lparr> train := False \<rparr>) p"
    by simp
qed

text \<open>
  On the small archive, with \<open>train\<close> unset: two accesses of index 0 whose samplers draw
  differently return the same configuration and the same labels.
\<close>

lemma example_state_item_other_draws:
  "\<exists>it. StateDataset_getitem example_env example_fs (\<lambda>k. 0)
      (example_draws \<lparr> scene_draw := 1 \<rparr>) (example_state_dataset False 1) 0 = Inr it"
  by (simp add: example_defs getitem_defs)

theorem noise_isolation_witness:
  "\<not> train (example_state_dataset False 1)
 \<and> StateDataset_getitem example_env example_fs (\<lambda>k. 1) example_draws (example_state_dataset False 1) 0
     = StateDataset_getitem example_env example_fs (\<lambda>k. 0) example_draws (example_state_dataset False 1) 0
 \<and> (\<exists>a b. StateDataset_getitem example_env example_fs (\<lambda>k. 1) example_draws (example_state_dataset False 1) 0 = Inr a
         \<and> StateDataset_getitem example_env example_fs (\<lambda>k. 0) (example_draws \<lparr> scene_draw := 1 \<rparr>)
              (example_state_dataset False 1) 0 = Inr b
         \<and> configuration a = configuration b
         \<and> point_cloud_labels a = point_cloud_labels b)
 \<and> \<not> train (example_trajectory_dataset False 1)
 \<and> TrajectoryDataset_getitem example_env example_fs (\<lambda>k. 1) example_draws (example_trajectory_dataset False 1) 1
     = TrajectoryDataset_getitem example_env example_fs (\<lambda>k. 0) example_draws (example_trajectory_dataset False 1) 1
 \<and> train (example_state_dataset True 0) \<and> random_scale (example_state_dataset True 0) = 0
 \<and> StateDataset_getitem example_env example_fs (\<lambda>k. 1) example_draws (example_state_dataset True 0) 0
     = StateDataset_getitem example_env example_fs (\<lambda>k. 0) example_draws ((example_state_dataset True 0) \<lparr> train := False \<rparr>) 0
 \<and> train (example_trajectory_dataset True 0) \<and> random_scale (example_trajectory_dataset True 0) = 0
 \<and> TrajectoryDataset_getitem example_env example_fs (\<lambda>k. 1) example_draws (example_trajectory_dataset True 0) 1
     = TrajectoryDataset_getitem example_env example_fs (\<lambda>k. 0) example_draws ((example_trajectory_dataset True 0) \<lparr> train := False \<rparr>) 1"
proof -
  have s: "(\<forall>d n cfg pj. length (sample example_env d n cfg pj) = n)
         \<and> (\<forall>d n pose pj. length (sample_end_effector example_env d n pose pj) = n)
         \<and> (\<forall>d obs n. length (construct_mixed_point_cloud example_env d obs n) = n)"
    by (simp add: example_env_def)
  obtain a b where
    a: "StateDataset_getitem example_env example_fs (\<lambda>k. 1) example_draws (example_state_dataset False 1) 0 = Inr a" and
    b: "StateDataset_getitem example_env example_fs (\<lambda>k. 0) (example_draws \<lparr> scene_draw := 1 \<rparr>)
              (example_state_dataset False 1) 0 = Inr b"
    using example_state_item example_state_item_other_draws by blast
  have t: "\<not> train (example_state_dataset False 1)" "\<not> train (example_trajectory_dataset False 1)"
          "train (example_state_dataset True 0) \<and> random_scale (example_state_dataset True 0) = 0"
          "train (example_trajectory_dataset True 0) \<and> random_scale (example_trajectory_dataset True 0) = 0"
    by (simp_all add: example_state_dataset_def example_trajectory_dataset_def)
  note m = noise_isolation [where e = example_env and fs = example_fs and ?noise1.0 = "\<lambda>k. 1"
      and ?noise2.0 = "\<lambda>k. 0" and w = example_draws and i = 0 and p = 1
      and ?w1.0 = example_draws and ?w2.0 = "example_draws \<lparr> scene_draw := 1 \<rparr>"]
  from m [where sd = "example_state_dataset False 1" and td = "example_trajectory_dataset False 1"] t(1,2) a b s
  have n: "StateDataset_getitem example_env example_fs (\<lambda>k. 1) example_draws (example_state_dataset False 1) 0
     = StateDataset_getitem example_env example_fs (\<lambda>k. 0) example_draws (example_state_dataset False 1) 0"
     "configuration a = configuration b" "point_cloud_labels a = point_cloud_labels b"
     "TrajectoryDataset_getitem example_env example_fs (\<lambda>k. 1) example_draws (example_trajectory_dataset False 1) 1
     = TrajectoryDataset_getitem example_env example_fs (\<lambda>k. 0) example_draws (example_trajectory_dataset False 1) 1"
    by blast+
  from m [where sd = "example_state_dataset True 0" and td = "example_trajectory_dataset True 0"] t(3,4)
  have z: "StateDataset_getitem example_env example_fs (\<lambda>k. 1) example_draws (example_state_dataset True 0) 0
     = StateDataset_getitem example_env example_fs (\<lambda>k. 0) example_draws ((example_state_dataset True 0) \<lparr> train := False \<rparr>) 0"
     "TrajectoryDataset_getitem example_env example_fs (\<lambda>k. 1) example_draws (example_trajectory_dataset True 0) 1
     = TrajectoryDataset_getitem example_env example_fs (\<lambda>k. 0) example_draws ((example_trajectory_dataset True 0) \<lparr> train := False \<rparr>) 1"
    by blast+
  from t n z a b show ?thesis by blast
qed

text \<open>
  C4 as stated fails for the point cloud: with \<open>train\<close> unset, two accesses of index 0
  in which the scene sampler draws differently return different point clouds.
\<close>

theorem point_cloud_differs_between_accesses:
  "\<not> train (example_state_dataset False 1)
 \<and> map_sum id point_cloud
      (StateDataset_getitem example_env example_fs (\<lambda>k. 1) example_draws (example_state_dataset False 1) 0)
     = Inr [[1, 0, 0], [1, 0, 0], [1, 0, 5], [1, 0, 5], [1, 0, 5], [0, 0, 7]]
 \<and> map_sum id point_cloud
      (StateDataset_getitem example_env example_fs (\<lambda>k. 1) (example_draws \<lparr> scene_draw := 1 \<rparr>)
         (example_state_dataset False 1) 0)
     = Inr [[1, 0, 0], [1, 0, 0], [1, 1, 5], [1, 1, 5], [1, 1, 5], [0, 0, 7]]
 \<and> map_sum id point_cloud
      (StateDataset_getitem example_env example_fs (\<lambda>k. 1) example_draws (example_state_dataset False 1) 0)
     \<noteq> map_sum id point_cloud
      (StateDataset_getitem example_env example_fs (\<lambda>k. 1) (example_draws \<lparr> scene_draw := 1 \<rparr>)
         (example_state_dataset False 1) 0)"
  by (simp add: example_defs getitem_defs numeral_2_eq_2 numeral_3_eq_3)

section \<open>A dataset without its archive\<close>







section \<open>The checksum report\<close>

text \<open>
  C7, as amended. \<open>DataModule.md5_checksums\<close> never raises. It reports exactly those
  of the three hard-coded splits \<open>train\<close>, \<open>val\<close> and \<open>mini_train\<close> whose file
  exists, each with the content hash of its archive, and no other key.
\<close>

theorem md5_checksums_hardcoded_splits:
  "\<exists>m. md5_checksums fs self = Inr m
     \<and> m ''train'' = map_option md5_checksum (files fs (data_dir self @ [''train'', ''train.hdf5'']))
     \<and> m ''val'' = map_option md5_checksum (files fs (data_dir self @ [''val'', ''val.hdf5'']))
     \<and> m ''mini_train'' = map_option md5_checksum (files fs (data_dir self @ [''val'', ''mini_train.hdf5'']))
     \<and> dom m \<subseteq> {''train'', ''val'', ''mini_train''}"
  by (cases "files fs (data_dir self @ [''train'', ''train.hdf5''])";
      cases "files fs (data_dir self @ [''val'', ''val.hdf5''])";
      cases "files fs (data_dir self @ [''val'', ''mini_train.hdf5''])")
     (simp_all add: md5_checksums_def exists_path_def MPNDataset_def bind_err_def)

theorem md5_checksums_hardcoded_splits_witness:
  "\<exists>m. md5_checksums example_fs example_data_module = Inr m
     \<and> m ''train'' = Some ''0f343b0931126a20f133d67c2b018a3b''
     \<and> m ''val'' = None \<and> m ''mini_train'' = None
     \<and> dom m \<subseteq> {''train'', ''val'', ''mini_train''}"
  using md5_checksums_hardcoded_splits [of example_fs example_data_module]
  by (simp add: example_fs_def example_data_module_def example_archive_def)

text \<open>
  C7 as stated fails: the archive of the test split exists, at the path
  \<open>load_from_directory\<close> gives the test split, and the report is empty.
\<close>

theorem md5_checksums_omits_test_split:
  "exists_path example_fs_test [''data'', ''test'', ''test.hdf5'']
   \<and> load_from_directory (\<lambda>p d. Inr p) (data_dir example_data_module) (Member TEST)
        = Inr [''data'', ''test'', ''test.hdf5'']
   \<and> md5_checksums example_fs_test example_data_module = Inr Map.empty"
  by (simp add: md5_checksums_def exists_path_def example_fs_test_def example_data_module_def
      load_from_directory_def)

section \<open>Unrecognised split identifiers\<close>

text \<open>
  C8. A \<open>dataset_type\<close> that is none of the recognised identifiers is a string;
  \<open>load_from_directory\<close> returns the error whose message is
  \<open>Invalid dataset type: \<close> followed by that string, for every constructor and every
  file system: no dataset is constructed.
\<close>

theorem load_from_directory_invalid_dataset_type:
  assumes "dtype \<notin> {Member TRAIN, Name ''train'', Member VAL_STATE, Name ''val'', Member VAL,
                     Member MINI_TRAIN, Name ''mini_train'', Member VAL_PRETRAIN,
                     Name ''val_pretrain'', Member TEST, Name ''test''}"
  shows "\<exists>s. dtype = Name s
           \<and> load_from_directory cls directory dtype = Inl (Exception (''Invalid dataset type: '' @ s))
           \<and> StateDataset_load_from_directory fs directory key n_robot n_obstacle n_target dtype prismatic scale chunk
               = Inl (Exception (''Invalid dataset type: '' @ s))
           \<and> TrajectoryDataset_load_from_directory fs directory key n_robot n_obstacle n_target dtype prismatic scale
               = Inl (Exception (''Invalid dataset type: '' @ s))"
proof (cases dtype)
  case (Member m)
  with assms show ?thesis by (cases m) simp_all
next
  case (Name s)
  with assms show ?thesis
    by (simp add: load_from_directory_def StateDataset_load_from_directory_def
        TrajectoryDataset_load_from_directory_def)
qed

text \<open>
  The string \<open>val_state\<close> is not recognised.
\<close>

theorem load_from_directory_invalid_dataset_type_witness:
  "\<exists>s. Name ''val_state'' = Name s
      \<and> load_from_directory (\<lambda>p d. Inr p) [''data''] (Name ''val_state'') = Inl (Exception (''Invalid dataset type: '' @ s))
      \<and> StateDataset_load_from_directory example_fs [''data''] ''global_solutions'' 2 3 1 (Name ''val_state'') 0 1 2
               = Inl (Exception (''Invalid dataset type: '' @ s))
      \<and> TrajectoryDataset_load_from_directory example_fs [''data''] ''global_solutions'' 2 3 1 (Name ''val_state'') 0 1
               = Inl (Exception (''Invalid dataset type: '' @ s))"
  using load_from_directory_invalid_dataset_type
    [of "Name ''val_state''" "\<lambda>p d. Inr p" "[''data'']" example_fs "''global_solutions''" 2 3 1 0 1 2]
  by simp

section \<open>The noise scale outside training\<close>

lemma Base_init_random_scale:
  assumes "Base_init fs data_path dtype key n_robot n_obstacle n_target prismatic scale = Inr b"
  shows "Base_init fs data_path dtype key n_robot n_obstacle n_target prismatic scale'
           = Inr (b \<lparr> random_scale := scale' \<rparr>)
         \<and> train b = (dtype = Member TRAIN)"
proof -
  let ?counts = "if \<not> exists_path fs data_path then Inr (0, 0)
        else bind_err (MPNDataset fs data_path DefaultMode) (\<lambda>f.
             bind_err (collection f key) (\<lambda>g.
             Inr (count_states g, count_trajectories f)))"
  from assms obtain ns np where c: "?counts = Inr (ns, np)"
    unfolding Base_init_def bind_err_Inr by (cases ?counts) auto
  from assms have b: "b = \<lparr> database = data_path, trajectory_key = key, train = (dtype = Member TRAIN),
           state_count = ns, problem_count = np, num_obstacle_points = n_obstacle,
           num_robot_points = n_robot, num_target_points = n_target,
           prismatic_joint = prismatic, random_scale = scale \<rparr>"
    unfolding Base_init_def c by (simp add: bind_err_def)
  show ?thesis unfolding Base_init_def c by (simp add: bind_err_def b)
qed

lemma StateDataset_init_random_scale:
  assumes "StateDataset_init fs data_path dtype key n_robot n_obstacle n_target prismatic scale chunk = Inr sd"
  shows "StateDataset_init fs data_path dtype key n_robot n_obstacle n_target prismatic scale' chunk
           = Inr (sd \<lparr> random_scale := scale' \<rparr>)
         \<and> train sd = (dtype = Member TRAIN)"
proof -
  from assms obtain b where
    b: "Base_init fs data_path dtype key n_robot n_obstacle n_target prismatic scale = Inr b"
    and sd: "sd = Base.extend b (StateDataset.fields chunk)"
    unfolding StateDataset_init_def bind_err_Inr by auto
  from Base_init_random_scale[OF b, of scale'] show ?thesis
    unfolding StateDataset_init_def sd
    by (simp add: bind_err_def Base.defs StateDataset.defs)
qed

lemma setup_data_test_init:
  "setup_data_test fs dm =
     StateDataset_init fs (data_dir dm @ [''test'', ''test.hdf5'']) (Member TEST) (train_trajectory_key dm)
       (dm_num_robot_points dm) (dm_num_obstacle_points dm) (dm_num_target_points dm)
       (dm_prismatic_joint dm) (dm_random_scale dm) (dm_action_chunk_length dm)"
  by (simp add: setup_data_test_def StateDataset_load_from_directory_def load_from_directory_def)

text \<open>
  C9. A dataset constructed with a \<open>dataset_type\<close> other than \<open>TRAIN\<close> has
  \<open>train\<close> unset, and the examples it returns do not depend on \<open>random_scale\<close>:
  constructed with any two scales, it returns the same result at every index, whatever
  the random draw. In particular the test split, which \<open>DataModule.setup\<close> builds with
  the configured scale, returns what it would return with scale 0.
\<close>

theorem random_scale_unused_outside_train:
  assumes "dtype \<noteq> Member TRAIN"
  shows "(\<forall>sd sd'. StateDataset_init fs data_path dtype key n_robot n_obstacle n_target prismatic scale chunk = Inr sd
            \<longrightarrow> StateDataset_init fs data_path dtype key n_robot n_obstacle n_target prismatic scale' chunk = Inr sd'
            \<longrightarrow> \<not> train sd
              \<and> StateDataset_getitem e fs noise1 w sd i = StateDataset_getitem e fs noise2 w sd' i)
       \<and> (\<forall>td td'. TrajectoryDataset_init fs data_path dtype key n_robot n_obstacle n_target prismatic scale = Inr td
            \<longrightarrow> TrajectoryDataset_init fs data_path dtype key n_robot n_obstacle n_target prismatic scale' = Inr td'
            \<longrightarrow> \<not> train td
              \<and> TrajectoryDataset_getitem e fs noise1 w td p = TrajectoryDataset_getitem e fs noise2 w td' p)
       \<and> (\<forall>sd sd'. setup_data_test fs dm = Inr sd
            \<longrightarrow> setup_data_test fs (dm \<lparr> dm_random_scale := 0 \<rparr>) = Inr sd'
            \<longrightarrow> \<not> train sd
              \<and> StateDataset_getitem e fs noise1 w sd i = StateDataset_getitem e fs noise2 w sd' i)"
proof (intro conjI allI impI)
  fix sd sd'
  assume a: "StateDataset_init fs data_path dtype key n_robot n_obstacle n_target prismatic scale chunk = Inr sd"
     and b: "StateDataset_init fs data_path dtype key n_robot n_obstacle n_target prismatic scale' chunk = Inr sd'"
  from StateDataset_init_random_scale[OF a, of scale'] b assms
  have s: "sd' = sd \<lparr> random_scale := scale' \<rparr>" "\<not> train sd" by auto
  show "\<not> train sd" by fact
  show "StateDataset_getitem e fs noise1 w sd i = StateDataset_getitem e fs noise2 w sd' i"
    using s by (intro StateDataset_getitem_cong) simp_all
next
  fix td td'
  assume a: "TrajectoryDataset_init fs data_path dtype key n_robot n_obstacle n_target prismatic scale = Inr td"
     and b: "TrajectoryDataset_init fs data_path dtype key n_robot n_obstacle n_target prismatic scale' = Inr td'"
  from Base_init_random_scale[of fs data_path dtype key n_robot n_obstacle n_target prismatic scale td scale'] a b assms
  have s: "td' = td \<lparr> random_scale := scale' \<rparr>" "\<not> train td" by (auto simp: TrajectoryDataset_init_def)
  show "\<not> train td" by fact
  show "TrajectoryDataset_getitem e fs noise1 w td p = TrajectoryDataset_getitem e fs noise2 w td' p"
    using s by (intro TrajectoryDataset_getitem_cong) simp_all
next
  fix sd sd'
  assume a: "setup_data_test fs dm = Inr sd"
     and b: "setup_data_test fs (dm \<lparr> dm_random_scale := 0 \<rparr>) = Inr sd'"
  from StateDataset_init_random_scale[OF a[unfolded setup_data_test_init], of 0] b
  have s: "sd' = sd \<lparr> random_scale := 0 \<rparr>" "\<not> train sd" by (auto simp: setup_data_test_init)
  show "\<not> train sd" by fact
  show "StateDataset_getitem e fs noise1 w sd i = StateDataset_getitem e fs noise2 w sd' i"
    using s by (intro StateDataset_getitem_cong) simp_all
qed

lemma example_test_item:
  "\<exists>it. StateDataset_getitem example_env example_fs_test (\<lambda>k. 1) example_draws ((example_state_dataset False 1) \<lparr> database := [''data'', ''test'', ''test.hdf5''] \<rparr>) 3 = Inr it"
  by (simp add: example_defs getitem_defs)

lemma example_setup_data_test:
  "setup_data_test example_fs_test example_data_module
     = Inr ((example_state_dataset False 1) \<lparr> database := [''data'', ''test'', ''test.hdf5''] \<rparr>)"
  "setup_data_test example_fs_test (example_data_module \<lparr> dm_random_scale := 0 \<rparr>)
     = Inr ((example_state_dataset False 0) \<lparr> database := [''data'', ''test'', ''test.hdf5''] \<rparr>)"
  by (simp_all add: setup_data_test_init StateDataset_init_def Base_init_def
        exists_path_def MPNDataset_def collection_def bind_err_def count_states_def count_trajectories_def
        example_defs Base.defs StateDataset.defs)

lemma example_trajectory_init:
  "TrajectoryDataset_init example_fs [''data'', ''train'', ''train.hdf5''] (Member VAL) ''global_solutions'' 2 3 1 0 scale
     = Inr (example_trajectory_dataset False scale)"
  by (simp add: TrajectoryDataset_init_def Base_init_def
        exists_path_def MPNDataset_def collection_def bind_err_def count_states_def count_trajectories_def
        example_defs)

theorem random_scale_unused_outside_train_witness:
  "setup_data_test example_fs_test example_data_module
     = Inr ((example_state_dataset False 1) \<lparr> database := [''data'', ''test'', ''test.hdf5''] \<rparr>)
 \<and> setup_data_test example_fs_test (example_data_module \<lparr> dm_random_scale := 0 \<rparr>)
     = Inr ((example_state_dataset False 0) \<lparr> database := [''data'', ''test'', ''test.hdf5''] \<rparr>)
 \<and> StateDataset_getitem example_env example_fs_test (\<lambda>k. 1) example_draws ((example_state_dataset False 1) \<lparr> database := [''data'', ''test'', ''test.hdf5''] \<rparr>) 3
     = StateDataset_getitem example_env example_fs_test (\<lambda>k. 0) example_draws ((example_state_dataset False 0) \<lparr> database := [''data'', ''test'', ''test.hdf5''] \<rparr>) 3
 \<and> (\<exists>it. StateDataset_getitem example_env example_fs_test (\<lambda>k. 1) example_draws ((example_state_dataset False 1) \<lparr> database := [''data'', ''test'', ''test.hdf5''] \<rparr>) 3 = Inr it)
 \<and> TrajectoryDataset_init example_fs [''data'', ''train'', ''train.hdf5''] (Member VAL) ''global_solutions'' 2 3 1 0 1
     = Inr (example_trajectory_dataset False 1)
 \<and> TrajectoryDataset_init example_fs [''data'', ''train'', ''train.hdf5''] (Member VAL) ''global_solutions'' 2 3 1 0 0
     = Inr (example_trajectory_dataset False 0)
 \<and> TrajectoryDataset_getitem example_env example_fs (\<lambda>k. 1) example_draws (example_trajectory_dataset False 1) 1
     = TrajectoryDataset_getitem example_env example_fs (\<lambda>k. 0) example_draws (example_trajectory_dataset False 0) 1"
proof -
  have t: "Member VAL \<noteq> Member TRAIN" by simp
  note m = random_scale_unused_outside_train [OF t, where e = example_env and ?noise1.0 = "\<lambda>k. 1"
      and ?noise2.0 = "\<lambda>k. 0"]
  from conjunct2 [OF conjunct2 [OF m [where fs = example_fs_test and dm = example_data_module and i = 3]]]
    example_setup_data_test
  have e: "StateDataset_getitem example_env example_fs_test (\<lambda>k. 1) example_draws ((example_state_dataset False 1) \<lparr> database := [''data'', ''test'', ''test.hdf5''] \<rparr>) 3
     = StateDataset_getitem example_env example_fs_test (\<lambda>k. 0) example_draws ((example_state_dataset False 0) \<lparr> database := [''data'', ''test'', ''test.hdf5''] \<rparr>) 3"
    by simp
  from conjunct1 [OF conjunct2 [OF m [where fs = example_fs and data_path = "[''data'', ''train'', ''train.hdf5'']"
      and key = "''global_solutions''" and n_robot = 2 and n_obstacle = 3 and n_target = 1
      and prismatic = 0 and scale = 1 and scale' = 0 and p = 1]]]
    example_trajectory_init
  have f: "TrajectoryDataset_getitem example_env example_fs (\<lambda>k. 1) example_draws (example_trajectory_dataset False 1) 1
     = TrajectoryDataset_getitem example_env example_fs (\<lambda>k. 0) example_draws (example_trajectory_dataset False 0) 1"
    by simp
  show ?thesis
    using example_setup_data_test example_trajectory_init e f example_test_item by simp
qed

end
